theory Spec2Isabelle
  imports Main
begin

section \<open>Strings\<close>

text \<open>
  A JavaScript string is a sequence of 16-bit code units. The type \<open>string\<close> is a list
  of 8-bit characters, so the model has the strings all of whose code units are below 256
  (U+0000 to U+00FF), a character standing for the code unit with its number. On these
  strings the methods the recorder calls are written out as JavaScript defines them:
  \<open>toLowerCase\<close> (the letters with a lower-case form in this range are A to Z and
  U+00C0 to U+00DE without the multiplication sign U+00D7, each 32 below its lower-case
  form), \<open>trim\<close> (the white space and line terminators in this range are tab, line feed,
  vertical tab, form feed, carriage return, space and the no-break space U+00A0),
  \<open>substring(0, n)\<close>, \<open>includes\<close>, \<open>startsWith\<close>, \<open>split(' ')[0]\<close>,
  \<open>Array.join\<close> and the decimal rendering of a number inside a template literal.
\<close>

definition lowerChar :: "char \<Rightarrow> char" where
  "lowerChar c =
     (let n = (of_char c :: nat)
      in if (65 \<le> n \<and> n \<le> 90) \<or> (192 \<le> n \<and> n \<le> 214) \<or> (216 \<le> n \<and> n \<le> 222)
         then char_of (n + 32) else c)"

definition toLowerCase :: "string \<Rightarrow> string" where
  "toLowerCase s = map lowerChar s"

definition isSpace :: "char \<Rightarrow> bool" where
  "isSpace c = ((of_char c :: nat) \<in> {9, 10, 11, 12, 13, 32, 160})"

definition trim :: "string \<Rightarrow> string" where
  "trim s = rev (dropWhile isSpace (rev (dropWhile isSpace s)))"

definition substring0 :: "nat \<Rightarrow> string \<Rightarrow> string" where
  "substring0 n s = take n s"


fun startsWith :: "string \<Rightarrow> string \<Rightarrow> bool" where
  "startsWith s [] = True"
| "startsWith [] (p # ps) = False"
| "startsWith (c # cs) (p # ps) = (c = p \<and> startsWith cs ps)"

fun includesStr :: "string \<Rightarrow> string \<Rightarrow> bool" where
  "includesStr [] sub = (sub = [])"
| "includesStr (c # cs) sub = (startsWith (c # cs) sub \<or> includesStr cs sub)"

fun join :: "string \<Rightarrow> string list \<Rightarrow> string" where
  "join sep [] = []"
| "join sep [p] = p"
| "join sep (p # q # ps) = p @ sep @ join sep (q # ps)"

definition digitChar :: "nat \<Rightarrow> char" where
  "digitChar d = char_of (48 + d)"

fun numberToString :: "nat \<Rightarrow> string" where
  "numberToString n =
     (if n < 10 then [digitChar n] else numberToString (n div 10) @ [digitChar (n mod 10)])"

declare numberToString.simps [simp del]

section \<open>The document tree as the recorder reads it\<close>

text \<open>
  \<open>className\<close> of an HTML element is a string; of an SVG element it is an
  \<open>SVGAnimatedString\<close> object (truthy, and not of type string) whose \<open>baseVal\<close> is the
  \<open>class\<close> attribute.
\<close>

datatype className = ClassString string | SVGAnimatedString string

record rect =
  r_left :: int
  r_top :: int
  r_width :: int
  r_height :: int

record computedStyle =
  display :: string
  visibility :: string
  opacity :: string
  zIndex :: string

text \<open>
  The properties of one element that the recorder reads. \<open>tagName\<close>, \<open>id\<close>,
  \<open>className\<close>, \<open>textContent\<close> and \<open>attributes\<close> are the properties every element has
  by the DOM interface \<open>Element\<close>, with the values that interface gives them (a form
  control named \<open>id\<close> or \<open>tagName\<close> that shadows the property on its form is not
  modelled). \<open>bounds\<close> is \<open>None\<close> when \<open>getBoundingClientRect\<close> throws.
  \<open>typeProp\<close>, \<open>valueProp\<close>, \<open>placeholder\<close> and \<open>checked\<close> are the form-control
  properties \<open>type\<close>, \<open>value\<close>, \<open>placeholder\<close> and \<open>checked\<close>; the code only tests
  them for truth or reads them after such a test, so an element without the property has
  the empty string or \<open>False\<close>, falsy as \<open>undefined\<close> is. \<open>selectedOptions\<close> is
  dereferenced without a test: it is \<open>None\<close> on an element that has no such property
  (every element that is not an \<open>HTMLSelectElement\<close>, whatever its tag name), and
  otherwise lists the \<open>text\<close> of each selected option.
\<close>

record element =
  tagName :: string
  idProp :: string
  className :: className
  textContent :: string
  attributes :: "(string \<times> string) list"
  typeProp :: string
  valueProp :: string
  placeholder :: string
  checked :: bool
  selectedOptions :: "string list option"
  bounds :: "rect option"
  style :: computedStyle

text \<open>
  A node together with what is reachable from it upwards and to the left: an element
  carries its properties, its preceding element siblings (nearest first, the chain of
  \<open>previousElementSibling\<close>) and its \<open>parentNode\<close> (\<open>None\<close> is \<open>null\<close>). The other
  node kinds are the roots a walk can end in: the document, a shadow root (with the
  \<open>id\<close> of its host) and a document fragment.
\<close>

datatype node =
    Element element "element list" "node option"
  | Document
  | ShadowRoot string
  | DocumentFragment

fun parentNode :: "node \<Rightarrow> node option" where
  "parentNode (Element e sibs p) = p"
| "parentNode n = None"

fun parentElement :: "node \<Rightarrow> node option" where
  "parentElement (Element e sibs (Some (Element pe psibs pp))) = Some (Element pe psibs pp)"
| "parentElement n = None"

section \<open>ElementSelector.generateXPath\<close>

text \<open>
  The inner loop: \<open>index\<close> starts at 1 and is incremented for every preceding sibling
  whose \<open>tagName\<close> equals that of the current element.
\<close>

fun countPreceding :: "string \<Rightarrow> element list \<Rightarrow> nat \<Rightarrow> nat" where
  "countPreceding tag [] index = index"
| "countPreceding tag (sibling # rest) index =
     countPreceding tag rest (if tagName sibling = tag then index + 1 else index)"

definition xpathPart :: "element \<Rightarrow> element list \<Rightarrow> string" where
  "xpathPart e sibs =
     (let index = countPreceding (tagName e) sibs 1;
          tag = toLowerCase (tagName e)
      in if index > 1 then tag @ ''['' @ numberToString index @ '']'' else tag)"

text \<open>
  The outer loop: while \<open>current\<close> is an element node, put its part in front of
  \<open>parts\<close> and continue with \<open>current.parentElement\<close>.
\<close>

function xpathLoop :: "node option \<Rightarrow> string list \<Rightarrow> string list" where
  "xpathLoop (Some (Element e sibs p)) parts =
     xpathLoop (parentElement (Element e sibs p)) (xpathPart e sibs # parts)"
| "xpathLoop (Some Document) parts = parts"
| "xpathLoop (Some (ShadowRoot h)) parts = parts"
| "xpathLoop (Some DocumentFragment) parts = parts"
| "xpathLoop None parts = parts"
  by pat_completeness auto
termination
proof (relation "measure (\<lambda>(current, parts). size_option size current)")
  show "wf (measure (\<lambda>(current, parts). size_option size current))"
    by simp
next
  fix e :: element and sibs :: "element list" and p :: "node option" and parts :: "string list"
  show "((parentElement (Element e sibs p), xpathPart e sibs # parts),
         (Some (Element e sibs p), parts))
        \<in> measure (\<lambda>(current, parts). size_option size current)"
    by (cases "Element e sibs p" rule: parentElement.cases) auto
qed

fun generateXPath :: "node option \<Rightarrow> string" where
  "generateXPath None = []"
| "generateXPath (Some (Element e sibs p)) =
     (if idProp e \<noteq> [] then ''//*[@id=\"'' @ idProp e @ ''\"]''
      else ''/'' @ join ''/'' (xpathLoop (Some (Element e sibs p)) []))"
| "generateXPath (Some n) =
     ''/'' @ join ''/'' (xpathLoop (Some n) [])"

section \<open>EnscribeUtils and ElementSelector.captureElementMetadata\<close>

definition getElementBounds :: "element \<Rightarrow> rect" where
  "getElementBounds e =
     (case bounds e of
        Some r \<Rightarrow> r
      | None \<Rightarrow> \<lparr>r_left = 0, r_top = 0, r_width = 0, r_height = 0\<rparr>)"

definition isElementVisible :: "element \<Rightarrow> bool" where
  "isElementVisible e =
     (let computed = style e; b = getElementBounds e
      in display computed \<noteq> ''none'' \<and> visibility computed \<noteq> ''hidden''
         \<and> opacity computed \<noteq> ''0'' \<and> r_width b > 0 \<and> r_height b > 0)"

text \<open>\<open>x || null\<close> for a string and for a \<open>className\<close> value.\<close>

definition orNull :: "string \<Rightarrow> string option" where
  "orNull s = (if s \<noteq> [] then Some s else None)"

definition classOrNull :: "className \<Rightarrow> className option" where
  "classOrNull c = (case c of ClassString s \<Rightarrow> (if s \<noteq> [] then Some c else None)
                            | SVGAnimatedString b \<Rightarrow> Some c)"

record parentContext =
  pc_tagName :: string
  pc_id :: "string option"
  pc_className :: "className option"
  pc_childIndex :: nat

record position =
  pos_x :: int
  pos_y :: int
  pos_width :: int
  pos_height :: int

record metadata =
  md_tagName :: string
  md_id :: "string option"
  md_className :: "className option"
  md_textContent :: "string option"
  md_attributes :: "(string \<times> string) list"
  md_position :: position
  md_isVisible :: bool
  md_computedStyles :: computedStyle
  md_parentContext :: "parentContext option"
  md_xpath :: string

definition getElementAttributes :: "element \<Rightarrow> (string \<times> string) list" where
  "getElementAttributes e = attributes e"

text \<open>
  \<open>Array.from(parent.children).indexOf(element)\<close> is the number of element siblings
  before the element.
\<close>

definition getParentContext :: "element \<Rightarrow> element list \<Rightarrow> node option \<Rightarrow> parentContext option"
  where
  "getParentContext e sibs p =
     (case parentElement (Element e sibs p) of
        Some (Element pe psibs pp) \<Rightarrow>
          Some \<lparr>pc_tagName = toLowerCase (tagName pe), pc_id = orNull (idProp pe),
                pc_className = classOrNull (className pe), pc_childIndex = length sibs\<rparr>
      | _ \<Rightarrow> None)"

text \<open>The argument is an element node, given by its three components.\<close>

definition captureElementMetadata :: "element \<Rightarrow> element list \<Rightarrow> node option \<Rightarrow> metadata"
  where
  "captureElementMetadata e sibs p =
     (let b = getElementBounds e; computed = style e
      in \<lparr>md_tagName = toLowerCase (tagName e),
          md_id = orNull (idProp e),
          md_className = classOrNull (className e),
          md_textContent =
            (if textContent e \<noteq> [] then Some (substring0 100 (trim (textContent e))) else None),
          md_attributes = getElementAttributes e,
          md_position = \<lparr>pos_x = r_left b, pos_y = r_top b, pos_width = r_width b,
                          pos_height = r_height b\<rparr>,
          md_isVisible = isElementVisible e,
          md_computedStyles = \<lparr>display = display computed, visibility = visibility computed,
                                opacity = opacity computed, zIndex = zIndex computed\<rparr>,
          md_parentContext = getParentContext e sibs p,
          md_xpath = generateXPath (Some (Element e sibs p))\<rparr>)"

section \<open>ElementSelector.isExcludedElement\<close>

text \<open>
  What the walk reads of a node: \<open>id\<close> and \<open>className\<close> are \<open>undefined\<close> on the
  document, on a shadow root and on a fragment (modelled as the empty string and
  \<open>None\<close>); \<open>getRootNode()\<close> is the topmost node of the tree the node is in; only a
  shadow root has a \<open>host\<close>.
\<close>

definition panelId :: string where
  "panelId = ''enscriber-floating-panel''"

fun nodeId :: "node \<Rightarrow> string" where
  "nodeId (Element e sibs p) = idProp e"
| "nodeId n = []"

fun nodeClassName :: "node \<Rightarrow> className option" where
  "nodeClassName (Element e sibs p) = Some (className e)"
| "nodeClassName n = None"

fun getRootNode :: "node \<Rightarrow> node" where
  "getRootNode (Element e sibs p) =
     (case p of None \<Rightarrow> Element e sibs p | Some q \<Rightarrow> getRootNode q)"
| "getRootNode n = n"

fun hostId :: "node \<Rightarrow> string option" where
  "hostId (ShadowRoot h) = Some h"
| "hostId n = None"

text \<open>The four tests made on \<open>currentElement\<close> in one round of the loop.\<close>

definition hasEnscriberId :: "node \<Rightarrow> bool" where
  "hasEnscriberId n = (nodeId n \<noteq> [] \<and> includesStr (nodeId n) ''enscriber'')"

definition hasEnscriberClass :: "node \<Rightarrow> bool" where
  "hasEnscriberClass n =
     (case nodeClassName n of
        Some (ClassString c) \<Rightarrow> c \<noteq> [] \<and> includesStr c ''enscriber''
      | _ \<Rightarrow> False)"

definition isPanel :: "node \<Rightarrow> bool" where
  "isPanel n = (nodeId n = panelId)"

definition inPanelShadowRoot :: "node \<Rightarrow> bool" where
  "inPanelShadowRoot n =
     (getRootNode n \<noteq> Document \<and> hostId (getRootNode n) = Some panelId)"

text \<open>\<open>currentElement.parentElement || currentElement.parentNode\<close>\<close>

definition nextInWalk :: "node \<Rightarrow> node option" where
  "nextInWalk n = (case parentElement n of Some q \<Rightarrow> Some q | None \<Rightarrow> parentNode n)"

text \<open>The \<open>while\<close> loop: \<open>True\<close> when one of its \<open>return true\<close> is reached.\<close>

function excludedWalk :: "node option \<Rightarrow> bool" where
  "excludedWalk None = False"
| "excludedWalk (Some currentElement) =
     (if hasEnscriberId currentElement then True
      else if hasEnscriberClass currentElement then True
      else if isPanel currentElement then True
      else if inPanelShadowRoot currentElement then True
      else excludedWalk (nextInWalk currentElement))"
  by pat_completeness auto
termination
proof (relation "measure (\<lambda>c. case c of None \<Rightarrow> 0 | Some n \<Rightarrow> Suc (size n))")
  show "wf (measure (\<lambda>c. case c of None \<Rightarrow> 0 | Some (n :: node) \<Rightarrow> Suc (size n)))"
    by simp
next
  fix currentElement :: node
  show "(nextInWalk currentElement, Some currentElement)
        \<in> measure (\<lambda>c. case c of None \<Rightarrow> 0 | Some n \<Rightarrow> Suc (size n))"
    by (cases currentElement rule: parentElement.cases) (auto simp: nextInWalk_def)
qed

text \<open>
  The fallback selectors, \<open>element.matches\<close> and \<open>element.closest\<close>. The \<open>class\<close>
  attribute is the text of \<open>className\<close>, whichever kind of value that is.
\<close>

datatype selector = IdIs string | IdStartsWith string | ClassContains string

definition excludeSelectors :: "selector list" where
  "excludeSelectors =
     [IdIs ''enscriber-floating-panel'', IdIs ''enscriber-highlight-overlay'',
      IdStartsWith ''enscriber-'', ClassContains ''enscriber-'']"

definition classAttribute :: "element \<Rightarrow> string" where
  "classAttribute e = (case className e of ClassString c \<Rightarrow> c | SVGAnimatedString c \<Rightarrow> c)"

fun matches :: "element \<Rightarrow> selector \<Rightarrow> bool" where
  "matches e (IdIs i) = (idProp e = i)"
| "matches e (IdStartsWith pre) = startsWith (idProp e) pre"
| "matches e (ClassContains sub) = includesStr (classAttribute e) sub"

fun closest :: "node \<Rightarrow> selector \<Rightarrow> bool" where
  "closest (Element e sibs p) sel =
     (if matches e sel then True
      else (case p of None \<Rightarrow> False | Some q \<Rightarrow> closest q sel))"
| "closest n sel = False"

fun nodeMatches :: "node \<Rightarrow> selector \<Rightarrow> bool" where
  "nodeMatches (Element e sibs p) sel = matches e sel"
| "nodeMatches n sel = False"

fun isExcludedElement :: "node option \<Rightarrow> bool" where
  "isExcludedElement None = True"
| "isExcludedElement (Some element) =
     (if excludedWalk (Some element) then True
      else list_ex (\<lambda>sel. nodeMatches element sel \<or> closest element sel) excludeSelectors)"

section \<open>Action classification in ElementSelector.selectElement\<close>

text \<open>
  The block of \<open>selectElement\<close> that computes \<open>detectedActionType\<close>, and
  \<open>getElementValue\<close>. Action types are the strings the source uses. A call that throws
  has the exception as its result (\<open>Inl\<close>): \<open>element.selectedOptions.length\<close> throws a
  \<open>TypeError\<close> when the element has no \<open>selectedOptions\<close>, as does
  \<open>className.split\<close> in the code generator when \<open>className\<close> is not a string.
\<close>

datatype error = TypeError

definition detectedActionType :: "string \<Rightarrow> element \<Rightarrow> string" where
  "detectedActionType actionType e =
     (if actionType = ''click'' then
        (let tag = toLowerCase (tagName e);
             inputType = (if typeProp e \<noteq> [] then toLowerCase (typeProp e) else [])
         in if tag = ''input'' then
              (if inputType \<in> set [''text'', ''email'', ''password'', ''search'', ''tel'', ''url'']
               then ''input''
               else if inputType \<in> set [''checkbox'', ''radio''] then ''check''
               else actionType)
            else if tag = ''textarea'' then ''input''
            else if tag = ''select'' then ''select''
            else actionType)
      else actionType)"

definition getElementValue :: "element \<Rightarrow> string \<Rightarrow> error + string" where
  "getElementValue e actionType =
     (if actionType = ''input'' then
        Inr (if valueProp e \<noteq> [] then valueProp e
             else if placeholder e \<noteq> [] then placeholder e else [])
      else if actionType = ''check'' then Inr (if checked e then ''checked'' else ''unchecked'')
      else if actionType = ''select'' then
        (case selectedOptions e of
           None \<Rightarrow> Inl TypeError
         | Some [] \<Rightarrow> Inr []
         | Some (opt # rest) \<Rightarrow> Inr opt)
      else Inr (if textContent e \<noteq> [] then substring0 50 (trim (textContent e)) else []))"

section \<open>Sessions, action records and the state object\<close>

datatype mode = INACTIVE | AUTO_RECORDING | MANUAL_SELECTION | PAUSED

record request =
  req_id :: string
  req_timestamp :: nat
  req_method :: string
  req_url :: string
  req_status :: "nat option"

record viewport =
  vp_width :: nat
  vp_height :: nat

record actionContext =
  ctx_url :: string
  ctx_title :: string
  ctx_viewport :: viewport

text \<open>
  An action record comes from an element capture (\<open>ar_element\<close> and \<open>ar_value\<close> set)
  or from a network request (\<open>ar_networkRequest\<close> set); a property the object literal
  does not have is \<open>None\<close>.
\<close>

record actionRecord =
  ar_id :: string
  ar_timestamp :: nat
  ar_type :: string
  ar_element :: "metadata option"
  ar_networkRequest :: "request option"
  ar_value :: "string option"
  ar_notes :: string
  ar_context :: actionContext

record settings =
  autoSave :: bool
  highlightElements :: bool
  showTooltips :: bool
  settingsRecordingMode :: string

record ui =
  panelVisible :: bool
  panelPosition :: "int \<times> int"
  panelSize :: "int \<times> int"
  isCollapsed :: bool
  isDragging :: bool
  isResizing :: bool

record sessionMetadata =
  sm_userAgent :: string
  sm_viewport :: viewport

text \<open>
  A session object. The fallback \<open>{ actions: [] }\<close> used when there is no current
  session has none of the other properties, so they are optional here.
\<close>

record session =
  s_id :: "string option"
  s_name :: "string option"
  s_url :: "string option"
  s_startTime :: "nat option"
  s_endTime :: "nat option"
  s_actions :: "actionRecord list"
  s_settings :: "settings option"
  s_metadata :: "sessionMetadata option"

definition emptySession :: session where
  "emptySession =
     \<lparr>s_id = None, s_name = None, s_url = None, s_startTime = None, s_endTime = None,
      s_actions = [], s_settings = None, s_metadata = None\<rparr>"

record selection =
  sel_element :: node
  sel_metadata :: metadata
  sel_timestamp :: nat

text \<open>
  \<open>StateManager.state\<close>. \<open>currentSession\<close> and \<open>selectedElement\<close> are \<open>None\<close> when
  \<open>null\<close> (or not yet set), \<open>networkRequests\<close> is \<open>None\<close> until it is first set.
\<close>

record state =
  mode :: mode
  isRecording :: bool
  isPaused :: bool
  currentSession :: "session option"
  ui :: ui
  settings :: settings
  selectedElement :: "selection option"
  networkRequests :: "request list option"

text \<open>
  The argument of \<open>setState\<close>: an object with some of the keys of the state. A key
  that is absent is \<open>None\<close>; \<open>currentSession: null\<close> is \<open>Some None\<close>.
\<close>

record updates =
  u_mode :: "mode option"
  u_isRecording :: "bool option"
  u_isPaused :: "bool option"
  u_currentSession :: "session option option"
  u_ui :: "ui option"
  u_settings :: "settings option"
  u_selectedElement :: "selection option option"
  u_networkRequests :: "request list option"

definition noUpdates :: updates where
  "noUpdates =
     \<lparr>u_mode = None, u_isRecording = None, u_isPaused = None, u_currentSession = None,
      u_ui = None, u_settings = None, u_selectedElement = None, u_networkRequests = None\<rparr>"

text \<open>\<open>{ ...this.state, ...updates }\<close>\<close>

definition mergeState :: "state \<Rightarrow> updates \<Rightarrow> state" where
  "mergeState s u =
     \<lparr>mode = (case u_mode u of None \<Rightarrow> mode s | Some v \<Rightarrow> v),
      isRecording = (case u_isRecording u of None \<Rightarrow> isRecording s | Some v \<Rightarrow> v),
      isPaused = (case u_isPaused u of None \<Rightarrow> isPaused s | Some v \<Rightarrow> v),
      currentSession = (case u_currentSession u of None \<Rightarrow> currentSession s | Some v \<Rightarrow> v),
      ui = (case u_ui u of None \<Rightarrow> ui s | Some v \<Rightarrow> v),
      settings = (case u_settings u of None \<Rightarrow> settings s | Some v \<Rightarrow> v),
      selectedElement =
        (case u_selectedElement u of None \<Rightarrow> selectedElement s | Some v \<Rightarrow> v),
      networkRequests =
        (case u_networkRequests u of None \<Rightarrow> networkRequests s | Some v \<Rightarrow> Some v)\<rparr>"

section \<open>The running system\<close>

text \<open>
  What a call reads from the browser: the clock (\<open>Date.now()\<close>; every read within one
  synchronous call gives the same value), the random suffix of identifiers, the page's
  location, title, viewport and user agent, the formatted date, and whether
  \<open>GM_setValue\<close> throws.
\<close>

record env =
  now :: nat
  rnd :: string
  href :: string
  docTitle :: string
  innerWidth :: nat
  innerHeight :: nat
  userAgent :: string
  localeString :: string
  gmThrows :: bool

datatype stored = StoredSession session | StoredSettings ui settings

datatype level = WARN | ERROR

text \<open>
  The state of the objects created by \<open>EnscribeCore.initialize\<close>: the state manager's
  state, the fields of the element selector, of the recording engine and of the network
  monitor, the userscript storage, the warnings and errors written to the console
  (\<open>console.log\<close> lines are not kept) and the events passed to \<open>emit\<close>. What
  \<open>GM_setValue\<close> stores under a key is the JSON text of an object; the storage here
  holds the object that was serialized. The listeners registered by the UI manager only
  redraw the panel; the one registered by the recording engine is \<open>recordingListener\<close>
  below.
\<close>

record system =
  st :: state
  isSelectionMode :: bool
  selectorSelectedElement :: "node option"
  recordingMode :: mode
  engineIsRecording :: bool
  isMonitoring :: bool
  capturedRequests :: "request list"
  storage :: "string \<Rightarrow> stored option"
  console :: "(level \<times> string) list"
  events :: "string list"

definition getState :: "system \<Rightarrow> state" where
  "getState sys = st sys"

definition gmSetValue :: "env \<Rightarrow> string \<Rightarrow> stored \<Rightarrow> string \<Rightarrow> system \<Rightarrow> system" where
  "gmSetValue env key v failure sys =
     (if gmThrows env then sys\<lparr>console := console sys @ [(ERROR, failure)]\<rparr>
      else sys\<lparr>storage := (storage sys)(key := Some v)\<rparr>)"

definition saveState :: "env \<Rightarrow> system \<Rightarrow> system" where
  "saveState env sys =
     gmSetValue env ''settings'' (StoredSettings (ui (st sys)) (settings (st sys)))
       ''Enscriber: Failed to save state:'' sys"

definition sessionKey :: "session \<Rightarrow> string" where
  "sessionKey sd =
     ''enscriber_session_'' @ (case s_id sd of Some i \<Rightarrow> i | None \<Rightarrow> ''undefined'')"

definition currentContext :: "env \<Rightarrow> actionContext" where
  "currentContext env =
     \<lparr>ctx_url = href env, ctx_title = docTitle env,
      ctx_viewport = \<lparr>vp_width = innerWidth env, vp_height = innerHeight env\<rparr>\<rparr>"

subsection \<open>ElementSelector, NetworkRequestMonitor and RecordingEngine\<close>

text \<open>
  The functions that call \<open>stateManager.setState\<close> take it as the argument \<open>setState\<close>;
  a call that does not return is \<open>None\<close>.
\<close>

definition enableSelectionMode ::
    "(system \<Rightarrow> updates \<Rightarrow> system option) \<Rightarrow> system \<Rightarrow> system option" where
  "enableSelectionMode setState sys =
     (if isSelectionMode sys then Some sys
      else setState (sys\<lparr>isSelectionMode := True\<rparr>)
             (noUpdates\<lparr>u_mode := Some MANUAL_SELECTION\<rparr>))"

definition disableSelectionMode :: "system \<Rightarrow> system" where
  "disableSelectionMode sys =
     (if \<not> isSelectionMode sys then sys else sys\<lparr>isSelectionMode := False\<rparr>)"

definition startMonitoring :: "system \<Rightarrow> system" where
  "startMonitoring sys =
     (if isMonitoring sys then sys else sys\<lparr>isMonitoring := True, capturedRequests := []\<rparr>)"

definition stopMonitoring :: "system \<Rightarrow> system" where
  "stopMonitoring sys =
     (if \<not> isMonitoring sys then sys else sys\<lparr>isMonitoring := False\<rparr>)"

text \<open>The object literal \<open>sessionData\<close> of \<open>initializeSession\<close>.\<close>

definition initialSessionData :: "env \<Rightarrow> state \<Rightarrow> session" where
  "initialSessionData env currentState =
     \<lparr>s_id = Some (''session_'' @ numberToString (now env) @ ''_'' @ rnd env),
      s_name = Some (''Session '' @ localeString env),
      s_url = Some (href env),
      s_startTime = Some (now env),
      s_endTime = None,
      s_actions = [],
      s_settings = Some (settings currentState),
      s_metadata = Some \<lparr>sm_userAgent = userAgent env,
                          sm_viewport = \<lparr>vp_width = innerWidth env,
                                          vp_height = innerHeight env\<rparr>\<rparr>\<rparr>"

definition initializeSession ::
    "(system \<Rightarrow> updates \<Rightarrow> system option) \<Rightarrow> env \<Rightarrow> system \<Rightarrow> system option" where
  "initializeSession setState env sys =
     setState sys
       (noUpdates\<lparr>u_currentSession := Some (Some (initialSessionData env (getState sys)))\<rparr>)"

definition startManualSelection ::
    "(system \<Rightarrow> updates \<Rightarrow> system option) \<Rightarrow> env \<Rightarrow> system \<Rightarrow> system option" where
  "startManualSelection setState env sys =
     (case initializeSession setState env sys of
        None \<Rightarrow> None
      | Some s1 \<Rightarrow>
          (case enableSelectionMode setState s1 of
             None \<Rightarrow> None
           | Some s2 \<Rightarrow> Some ((startMonitoring s2)\<lparr>engineIsRecording := True\<rparr>)))"

definition startAutoRecording ::
    "(system \<Rightarrow> updates \<Rightarrow> system option) \<Rightarrow> env \<Rightarrow> system \<Rightarrow> system option" where
  "startAutoRecording setState env sys =
     (case initializeSession setState env sys of
        None \<Rightarrow> None
      | Some s1 \<Rightarrow>
          (case enableSelectionMode setState s1 of
             None \<Rightarrow> None
           | Some s2 \<Rightarrow> Some ((startMonitoring s2)\<lparr>engineIsRecording := True\<rparr>)))"

definition pauseRecording :: "system \<Rightarrow> system" where
  "pauseRecording sys = stopMonitoring (disableSelectionMode sys)"

definition stopRecording ::
    "(system \<Rightarrow> updates \<Rightarrow> system option) \<Rightarrow> env \<Rightarrow> system \<Rightarrow> system option" where
  "stopRecording setState env sys =
     (let s1 = (stopMonitoring (disableSelectionMode sys))\<lparr>engineIsRecording := False\<rparr>;
          currentState = getState s1
      in case currentSession currentState of
           None \<Rightarrow> Some s1
         | Some cs \<Rightarrow>
             (let sessionData = cs\<lparr>s_endTime := Some (now env)\<rparr>;
                  s2 = gmSetValue env (sessionKey sessionData) (StoredSession sessionData)
                         ''Enscriber: Failed to save session:'' s1
              in setState s2 (noUpdates\<lparr>u_currentSession := Some (Some sessionData)\<rparr>)))"

definition handleModeChange ::
    "(system \<Rightarrow> updates \<Rightarrow> system option) \<Rightarrow> env \<Rightarrow> system \<Rightarrow> mode \<Rightarrow> system option"
  where
  "handleModeChange setState env sys newMode =
     (let s1 = sys\<lparr>recordingMode := newMode\<rparr>
      in case newMode of
           MANUAL_SELECTION \<Rightarrow> startManualSelection setState env s1
         | AUTO_RECORDING \<Rightarrow> startAutoRecording setState env s1
         | PAUSED \<Rightarrow> Some (pauseRecording s1)
         | INACTIVE \<Rightarrow> stopRecording setState env s1)"

text \<open>The listener registered by \<open>RecordingEngine.setupStateListeners\<close>.\<close>

definition recordingListener ::
    "(system \<Rightarrow> updates \<Rightarrow> system option) \<Rightarrow> env \<Rightarrow> system \<Rightarrow> state \<Rightarrow> state
     \<Rightarrow> system option" where
  "recordingListener setState env sys newState prevState =
     (if mode newState \<noteq> mode prevState then handleModeChange setState env sys (mode newState)
      else Some sys)"

subsection \<open>StateManager.setState\<close>

text \<open>
  \<open>setState\<close> merges, notifies the listeners and saves the settings. The recording
  listener calls \<open>setState\<close> again, so the function is recursive; the first argument
  bounds how deep these calls may nest, and running out of it is \<open>None\<close>. The lemmas
  \<open>setStateN_total\<close> and \<open>setStateN_stable\<close> below show that a bound of 3 is never
  reached and that a larger one changes nothing.
\<close>

definition autoSaveState :: "env \<Rightarrow> system \<Rightarrow> system" where
  "autoSaveState env sys = (if autoSave (settings (st sys)) then saveState env sys else sys)"

primrec setStateN :: "nat \<Rightarrow> env \<Rightarrow> system \<Rightarrow> updates \<Rightarrow> system option" where
  "setStateN 0 env sys u = None"
| "setStateN (Suc k) env sys u =
     (let previousState = st sys;
          s1 = sys\<lparr>st := mergeState (st sys) u\<rparr>
      in case recordingListener (setStateN k env) env s1 (st s1) previousState of
           None \<Rightarrow> None
         | Some s2 \<Rightarrow> Some (autoSaveState env s2))"

definition setState :: "env \<Rightarrow> system \<Rightarrow> updates \<Rightarrow> system option" where
  "setState env sys u = setStateN 3 env sys u"

subsection \<open>Capture\<close>

definition generateActionId :: "env \<Rightarrow> string" where
  "generateActionId env = ''action_'' @ numberToString (now env) @ ''_'' @ rnd env"

definition generateId :: "env \<Rightarrow> string" where
  "generateId env = ''enscriber_'' @ numberToString (now env) @ ''_'' @ rnd env"

text \<open>\<open>currentState.currentSession || { actions: [] }\<close>\<close>

definition sessionOrEmpty :: "state \<Rightarrow> session" where
  "sessionOrEmpty currentState =
     (case currentSession currentState of Some c \<Rightarrow> c | None \<Rightarrow> emptySession)"

text \<open>
  The object literal \<open>actionRecord\<close> of \<open>selectElement\<close>, made from the metadata
  captured before and the detected action type. Its property \<open>value\<close> is the result of
  \<open>getElementValue\<close>; when that call throws, no object is made.
\<close>

definition elementActionRecord ::
    "env \<Rightarrow> element \<Rightarrow> element list \<Rightarrow> node option \<Rightarrow> string \<Rightarrow> error + actionRecord"
  where
  "elementActionRecord env e sibs p actionType =
     (let metadata = captureElementMetadata e sibs p;
          detected = detectedActionType actionType e
      in case getElementValue e detected of
           Inl err \<Rightarrow> Inl err
         | Inr v \<Rightarrow>
             Inr \<lparr>ar_id = generateActionId env,
                  ar_timestamp = now env,
                  ar_type = detected,
                  ar_element = Some metadata,
                  ar_networkRequest = None,
                  ar_value = Some v,
                  ar_notes = [],
                  ar_context = currentContext env\<rparr>)"

text \<open>
  How a call of \<open>selectElement\<close> or of the click listener ends: it returns, or it throws;
  either way the system is left in some state. \<open>selectElement\<close> has set its field
  \<open>selectedElement\<close> before anything can throw, and calls \<open>setState\<close> only after the
  action record has been made.
\<close>

datatype completion = Returned system | Thrown error system

fun stateAfter :: "completion \<Rightarrow> system" where
  "stateAfter (Returned s) = s"
| "stateAfter (Thrown err s) = s"

text \<open>
  A call of \<open>EnscribeUtils.getElementBounds\<close> in which \<open>getBoundingClientRect\<close> throws
  writes a warning. \<open>captureElementMetadata\<close> makes two such calls (one of them inside
  \<open>isElementVisible\<close>), and \<open>showActionConfirmation\<close>, at the end of
  \<open>selectElement\<close>, makes one more inside \<open>highlightElement\<close>, which gives up when it
  finds the element not visible.
\<close>

definition warnBounds :: "element \<Rightarrow> system \<Rightarrow> system" where
  "warnBounds e sys =
     (case bounds e of
        Some r \<Rightarrow> sys
      | None \<Rightarrow> sys\<lparr>console := console sys
                             @ [(WARN, ''Enscriber: Could not get element bounds'')]\<rparr>)"

definition selectElement ::
    "env \<Rightarrow> system \<Rightarrow> element \<Rightarrow> element list \<Rightarrow> node option \<Rightarrow> string
     \<Rightarrow> completion option"
  where
  "selectElement env sys e sibs p actionType =
     (let s1 = sys\<lparr>selectorSelectedElement := Some (Element e sibs p)\<rparr>;
          metadata = captureElementMetadata e sibs p;
          s1 = warnBounds e (warnBounds e s1)
      in case elementActionRecord env e sibs p actionType of
           Inl err \<Rightarrow> Some (Thrown err s1)
         | Inr actionRecord \<Rightarrow>
             (let currentState = getState s1;
                  cs = sessionOrEmpty currentState;
                  updatedActions = s_actions cs @ [actionRecord]
              in map_option (\<lambda>s2. Returned (warnBounds e s2))
                   (setState env s1
                      (noUpdates\<lparr>u_selectedElement :=
                                    Some (Some \<lparr>sel_element = Element e sibs p,
                                                 sel_metadata = metadata,
                                                 sel_timestamp = now env\<rparr>),
                                  u_currentSession :=
                                    Some (Some (cs\<lparr>s_actions := updatedActions\<rparr>))\<rparr>))))"

text \<open>
  \<open>handleClick\<close>; the argument \<open>target\<close> is what \<open>getElementUnderCursor\<close> returns,
  an element node or \<open>null\<close>.
\<close>

fun handleClick :: "env \<Rightarrow> system \<Rightarrow> node option \<Rightarrow> completion option" where
  "handleClick env sys None = Some (Returned sys)"
| "handleClick env sys (Some (Element e sibs p)) =
     (if \<not> isSelectionMode sys then Some (Returned sys)
      else if \<not> isExcludedElement (Some (Element e sibs p))
           then selectElement env sys e sibs p ''click''
           else Some (Returned sys))"
| "handleClick env sys (Some n) = Some (Returned sys)"

text \<open>\<open>handleKeyDown\<close>, given \<open>event.key\<close>.\<close>

definition handleKeyDown :: "string \<Rightarrow> system \<Rightarrow> system" where
  "handleKeyDown key sys =
     (if \<not> isSelectionMode sys then sys
      else if key = ''Escape'' then disableSelectionMode sys
      else sys)"

text \<open>
  The element that \<open>showActionConfirmation\<close> makes and appends to the body at the end of
  \<open>selectElement\<close>, where it stays for two seconds: \<open>document.createElement('div')\<close>,
  on which \<open>style.cssText\<close> and \<open>textContent\<close> are set and nothing else, so that it has
  a \<open>style\<close> attribute and neither an \<open>id\<close> nor a class. The arguments are the text
  of the style attribute as the browser serializes it, the message, and what the layout
  gives for the bounds and the computed style. The dialogs of the panel are made the same
  way.
\<close>

definition confirmationElement ::
    "string \<Rightarrow> string \<Rightarrow> rect option \<Rightarrow> computedStyle \<Rightarrow> element" where
  "confirmationElement css message b computed =
     \<lparr>tagName = ''DIV'', idProp = [], className = ClassString [], textContent = message,
      attributes = [(''style'', css)], typeProp = [], valueProp = [], placeholder = [],
      checked = False, selectedOptions = None, bounds = b, style = computed\<rparr>"

text \<open>The object literal \<open>actionRecord\<close> of \<open>addRequestToActions\<close>.\<close>

definition requestActionRecord :: "env \<Rightarrow> request \<Rightarrow> string \<Rightarrow> actionRecord" where
  "requestActionRecord env requestData actionType =
     \<lparr>ar_id = generateId env,
      ar_timestamp = now env,
      ar_type = actionType,
      ar_element = None,
      ar_networkRequest = Some requestData,
      ar_value = None,
      ar_notes = req_method requestData @ '' '' @ req_url requestData,
      ar_context = currentContext env\<rparr>"

definition addRequestToActions :: "env \<Rightarrow> system \<Rightarrow> request \<Rightarrow> string \<Rightarrow> system option" where
  "addRequestToActions env sys requestData actionType =
     (let currentState = getState sys;
          cs = sessionOrEmpty currentState;
          actionRecord = requestActionRecord env requestData actionType;
          updatedActions = s_actions cs @ [actionRecord]
      in setState env sys
           (noUpdates\<lparr>u_currentSession := Some (Some (cs\<lparr>s_actions := updatedActions\<rparr>))\<rparr>))"

subsection \<open>RecordingEngine.toggleRecording and EnscribeCore\<close>

definition toggleRecording :: "env \<Rightarrow> system \<Rightarrow> system option" where
  "toggleRecording env sys =
     (let currentState = getState sys
      in if mode currentState = INACTIVE
         then setState env sys
                (noUpdates\<lparr>u_mode := Some MANUAL_SELECTION, u_isRecording := Some True\<rparr>)
         else setState env sys
                (noUpdates\<lparr>u_mode := Some INACTIVE, u_isRecording := Some False\<rparr>))"

definition emit :: "string \<Rightarrow> system \<Rightarrow> system" where
  "emit type sys = sys\<lparr>events := events sys @ [type]\<rparr>"

definition saveSession :: "env \<Rightarrow> system \<Rightarrow> session \<Rightarrow> system" where
  "saveSession env sys sessionData =
     gmSetValue env (sessionKey sessionData) (StoredSession sessionData)
       ''Enscriber: Failed to save session:'' sys"

definition startSession :: "env \<Rightarrow> system \<Rightarrow> string option \<Rightarrow> string option \<Rightarrow> system option"
  where
  "startSession env sys name url =
     (let sessionId = generateId env;
          sessionData =
            \<lparr>s_id = Some sessionId,
             s_name = Some (case name of Some n \<Rightarrow> (if n \<noteq> [] then n
                                                     else ''Session '' @ localeString env)
                                       | None \<Rightarrow> ''Session '' @ localeString env),
             s_url = Some (case url of Some v \<Rightarrow> (if v \<noteq> [] then v else href env)
                                     | None \<Rightarrow> href env),
             s_startTime = Some (now env),
             s_endTime = None,
             s_actions = [],
             s_settings = Some (settings (getState sys)),
             s_metadata = Some \<lparr>sm_userAgent = userAgent env,
                                 sm_viewport = \<lparr>vp_width = innerWidth env,
                                                 vp_height = innerHeight env\<rparr>\<rparr>\<rparr>
      in case setState env sys
                (noUpdates\<lparr>u_currentSession := Some (Some sessionData),
                            u_isRecording := Some True,
                            u_mode := Some AUTO_RECORDING\<rparr>) of
           None \<Rightarrow> None
         | Some s1 \<Rightarrow> Some (emit ''sessionStarted'' s1))"

definition stopSession :: "env \<Rightarrow> system \<Rightarrow> system option" where
  "stopSession env sys =
     (let state = getState sys
      in case currentSession state of
           None \<Rightarrow> Some (sys\<lparr>console := console sys
                                  @ [(WARN, ''Enscriber: No active session to stop'')]\<rparr>)
         | Some cs \<Rightarrow>
             (let sessionData = cs\<lparr>s_endTime := Some (now env)\<rparr>;
                  s1 = saveSession env sys sessionData
              in case setState env s1
                        (noUpdates\<lparr>u_currentSession := Some None,
                                    u_isRecording := Some False,
                                    u_mode := Some INACTIVE\<rparr>) of
                   None \<Rightarrow> None
                 | Some s2 \<Rightarrow> Some (emit ''sessionStopped'' s2)))"

definition pauseSession :: "env \<Rightarrow> system \<Rightarrow> system option" where
  "pauseSession env sys =
     (let state = getState sys
      in if \<not> isRecording state
         then Some (sys\<lparr>console := console sys
                               @ [(WARN, ''Enscriber: No active session to pause'')]\<rparr>)
         else (case setState env sys
                      (noUpdates\<lparr>u_isPaused := Some True, u_mode := Some PAUSED\<rparr>) of
                 None \<Rightarrow> None
               | Some s1 \<Rightarrow> Some (emit ''sessionPaused'' s1)))"

definition resumeSession :: "env \<Rightarrow> system \<Rightarrow> system option" where
  "resumeSession env sys =
     (let state = getState sys
      in if \<not> isPaused state
         then Some (sys\<lparr>console := console sys
                               @ [(WARN, ''Enscriber: No paused session to resume'')]\<rparr>)
         else (case setState env sys
                      (noUpdates\<lparr>u_isPaused := Some False, u_mode := Some AUTO_RECORDING\<rparr>) of
                 None \<Rightarrow> None
               | Some s1 \<Rightarrow> Some (emit ''sessionResumed'' s1)))"

text \<open>
  \<open>EnscribeCore.handleVisibilityChange\<close>, given \<open>document.hidden\<close>, and the handler of
  the panel's recording button, \<open>UIManager.handleStartRecording\<close>.
\<close>

definition handleVisibilityChange :: "env \<Rightarrow> bool \<Rightarrow> system \<Rightarrow> system option" where
  "handleVisibilityChange env hidden sys =
     (if hidden then
        (let state = getState sys
         in if isRecording state \<and> \<not> isPaused state then pauseSession env sys else Some sys)
      else Some sys)"

definition handleStartRecording :: "env \<Rightarrow> system \<Rightarrow> system option" where
  "handleStartRecording env sys =
     (let currentState = getState sys
      in if mode currentState = INACTIVE then toggleRecording env sys
         else if mode currentState = MANUAL_SELECTION \<or> mode currentState = AUTO_RECORDING
         then toggleRecording env sys
         else if mode currentState = PAUSED
         then setState env sys
                (noUpdates\<lparr>u_mode := Some MANUAL_SELECTION, u_isPaused := Some False\<rparr>)
         else Some sys)"

subsection \<open>The selector of an element action in UIManager.generatePlaywrightCode\<close>









subsection \<open>The initial system\<close>

text \<open>
  The state after the constructors and \<open>EnscribeCore.initialize\<close> have run on an empty
  storage: nothing was loaded, and the \<open>setState\<close> call of \<open>initialize\<close> has saved
  the settings.
\<close>

definition initialState :: state where
  "initialState =
     \<lparr>mode = INACTIVE, isRecording = False, isPaused = False, currentSession = None,
      ui = \<lparr>panelVisible = False, panelPosition = (20, 20), panelSize = (400, 500),
            isCollapsed = False, isDragging = False, isResizing = False\<rparr>,
      settings = \<lparr>autoSave = True, highlightElements = True, showTooltips = True,
                  settingsRecordingMode = ''auto''\<rparr>,
      selectedElement = None, networkRequests = None\<rparr>"

definition initialSystem :: system where
  "initialSystem =
     \<lparr>st = initialState, isSelectionMode = False, selectorSelectedElement = None,
      recordingMode = INACTIVE, engineIsRecording = False, isMonitoring = False,
      capturedRequests = [],
      storage = (\<lambda>k. None)(''settings'' :=
                  Some (StoredSettings (ui initialState) (settings initialState))),
      console = [], events = []\<rparr>"

subsection \<open>The state object as a reference\<close>

text \<open>
  \<open>getState\<close> and \<open>setState\<close> on the level of objects: the store holds the state
  objects that have been created, an address is an index into it, and \<open>stateRef\<close> is
  \<open>this.state\<close>. Both \<open>{ ...this.state }\<close> and \<open>{ ...this.state, ...updates }\<close>
  create a new object; \<open>assignProperties\<close> writes top-level properties of the object at
  an address, as \<open>obj.key = v\<close> does.
\<close>

record stateManager =
  objects :: "state list"
  stateRef :: nat

definition storedState :: "stateManager \<Rightarrow> state" where
  "storedState m = objects m ! stateRef m"

definition getStateObject :: "stateManager \<Rightarrow> nat \<times> stateManager" where
  "getStateObject m = (length (objects m), m\<lparr>objects := objects m @ [storedState m]\<rparr>)"

definition setStateObject :: "stateManager \<Rightarrow> updates \<Rightarrow> stateManager" where
  "setStateObject m u =
     (let previousState = length (objects m);
          m1 = m\<lparr>objects := objects m @ [storedState m]\<rparr>;
          merged = length (objects m1)
      in m1\<lparr>objects := objects m1 @ [mergeState (storedState m1) u], stateRef := merged\<rparr>)"

definition assignProperties :: "stateManager \<Rightarrow> nat \<Rightarrow> updates \<Rightarrow> stateManager" where
  "assignProperties m a u = m\<lparr>objects := (objects m)[a := mergeState (objects m ! a) u]\<rparr>"

section \<open>Notions used to state the properties\<close>

text \<open>
  The element and its element ancestors, nearest first, each with its preceding
  siblings.
\<close>

fun elementChain :: "node \<Rightarrow> (element \<times> element list) list" where
  "elementChain (Element e sibs p) =
     (e, sibs) # (case p of None \<Rightarrow> [] | Some q \<Rightarrow> elementChain q)"
| "elementChain n = []"

definition chainOf :: "node option \<Rightarrow> (element \<times> element list) list" where
  "chainOf current = (case current of None \<Rightarrow> [] | Some n \<Rightarrow> elementChain n)"

text \<open>
  The step of a positional path as the specification words it: the 1-based index is one
  more than the number of preceding siblings with the same tag, and it is written only
  when it exceeds 1.
\<close>

definition sameTagBefore :: "element \<Rightarrow> element list \<Rightarrow> nat" where
  "sameTagBefore e sibs = length (filter (\<lambda>s. tagName s = tagName e) sibs)"

definition positionalStep :: "element \<times> element list \<Rightarrow> string" where
  "positionalStep lv =
     (let e = fst lv; index = 1 + sameTagBefore e (snd lv)
      in if index > 1 then toLowerCase (tagName e) @ ''['' @ numberToString index @ '']''
         else toLowerCase (tagName e))"

text \<open>
  The \<open>id\<close> of the nearest proper ancestor that has one, and what it means for a path
  to be anchored at an element with a given \<open>id\<close>.
\<close>

definition nearestAncestorId :: "node \<Rightarrow> string option" where
  "nearestAncestorId n =
     map_option (\<lambda>lv. idProp (fst lv)) (find (\<lambda>lv. idProp (fst lv) \<noteq> []) (tl (elementChain n)))"

definition anchoredAt :: "string \<Rightarrow> string \<Rightarrow> bool" where
  "anchoredAt anchor path = startsWith path (''//*[@id=\"'' @ anchor @ ''\"]'')"



text \<open>
  Two state objects agree on every field other than \<open>mode\<close> and \<open>currentSession\<close>.
\<close>

definition frameEq :: "state \<Rightarrow> state \<Rightarrow> bool" where
  "frameEq a b =
     (isRecording a = isRecording b \<and> isPaused a = isPaused b \<and> ui a = ui b
      \<and> settings a = settings b \<and> selectedElement a = selectedElement b
      \<and> networkRequests a = networkRequests b)"

text \<open>
  The kinds of selector the specification names, and the kind of a selector string as its
  form shows it: an attribute selector on a \<open>data-\<close> attribute, a CSS selector by id or
  class, a text selector, and otherwise a path.
\<close>

datatype strategyKind = DataAttribute | Semantic | Css | XPath | TextBased


text \<open>
  A run of captures: each one is a call of \<open>selectElement\<close> (a click on an element that
  is not excluded) or of \<open>addRequestToActions\<close>, made in its own environment. A call
  that throws ends in the listener that made it, and the run goes on from the state it
  left. \<open>recorded\<close> lists the record a capture makes: none when making it throws.
\<close>

datatype capture =
    ElementCapture element "element list" "node option"
  | RequestCapture request string

fun captureStep :: "env \<Rightarrow> system \<Rightarrow> capture \<Rightarrow> completion option" where
  "captureStep env sys (ElementCapture e sibs p) = selectElement env sys e sibs p ''click''"
| "captureStep env sys (RequestCapture requestData actionType) =
     map_option Returned (addRequestToActions env sys requestData actionType)"

fun recordOf :: "env \<Rightarrow> capture \<Rightarrow> error + actionRecord" where
  "recordOf env (ElementCapture e sibs p) = elementActionRecord env e sibs p ''click''"
| "recordOf env (RequestCapture requestData actionType) =
     Inr (requestActionRecord env requestData actionType)"

definition recorded :: "env \<times> capture \<Rightarrow> actionRecord list" where
  "recorded ec = (case recordOf (fst ec) (snd ec) of Inl err \<Rightarrow> [] | Inr r \<Rightarrow> [r])"

fun runCaptures :: "system \<Rightarrow> (env \<times> capture) list \<Rightarrow> system option" where
  "runCaptures sys [] = Some sys"
| "runCaptures sys (ec # rest) =
     (case captureStep (fst ec) sys (snd ec) of
        None \<Rightarrow> None
      | Some c \<Rightarrow> runCaptures (stateAfter c) rest)"

text \<open>
  What can be observed of the system after a call that returned: the mode, the flags
  \<open>isRecording\<close> and \<open>isPaused\<close>, the \<open>id\<close> of the current session (\<open>null\<close> when
  there is none), the warnings and errors on the console and the events emitted; and, of
  the session saved under a key, its end time and the types of its actions.
\<close>

definition sessionIdOf :: "session option \<Rightarrow> string" where
  "sessionIdOf c =
     (case c of None \<Rightarrow> ''null''
              | Some sd \<Rightarrow> (case s_id sd of Some i \<Rightarrow> i | None \<Rightarrow> ''undefined''))"

definition outcome ::
    "system option \<Rightarrow> (mode \<times> bool \<times> bool \<times> string \<times> (level \<times> string) list \<times> string list) option"
  where
  "outcome r =
     (case r of
        None \<Rightarrow> None
      | Some s \<Rightarrow> Some (mode (st s), isRecording (st s), isPaused (st s),
                        sessionIdOf (currentSession (st s)), console s, events s))"

definition savedSession :: "system option \<Rightarrow> string \<Rightarrow> (nat option \<times> string list) option" where
  "savedSession r key =
     (case r of
        None \<Rightarrow> None
      | Some s \<Rightarrow>
          (case storage s key of
             Some (StoredSession sd) \<Rightarrow> Some (s_endTime sd, map ar_type (s_actions sd))
           | _ \<Rightarrow> None))"

text \<open>
  The types of the actions of the current session, in their order (none when there is no
  session); a click as a step from one state of the system to the next; and how a click
  ended.
\<close>

definition recordedTypes :: "system option \<Rightarrow> string list option" where
  "recordedTypes r = map_option (\<lambda>s. map ar_type (s_actions (sessionOrEmpty (st s)))) r"

definition clickOn :: "env \<Rightarrow> node \<Rightarrow> system \<Rightarrow> system option" where
  "clickOn env target sys = map_option stateAfter (handleClick env sys (Some target))"

definition thrownBy :: "completion option \<Rightarrow> error option" where
  "thrownBy r = (case r of Some (Thrown err s) \<Rightarrow> Some err | _ \<Rightarrow> None)"

section \<open>Concrete inputs\<close>

definition plainElement :: "string \<Rightarrow> element" where
  "plainElement tag =
     \<lparr>tagName = tag, idProp = [], className = ClassString [], textContent = [],
      attributes = [], typeProp = [], valueProp = [], placeholder = [], checked = False,
      selectedOptions = None, bounds = Some \<lparr>r_left = 0, r_top = 0, r_width = 10, r_height = 10\<rparr>,
      style = \<lparr>display = ''block'', visibility = ''visible'', opacity = ''1'',
               zIndex = ''auto''\<rparr>\<rparr>"

definition htmlNode :: node where
  "htmlNode = Element (plainElement ''HTML'') [] (Some Document)"

definition bodyNode :: node where
  "bodyNode = Element (plainElement ''BODY'') [plainElement ''HEAD''] (Some htmlNode)"

definition mainDiv :: node where
  "mainDiv = Element ((plainElement ''DIV'')\<lparr>idProp := ''main''\<rparr>) [] (Some bodyNode)"

definition spanInMain :: node where
  "spanInMain = Element (plainElement ''SPAN'') [] (Some mainDiv)"

definition submitButton :: element where
  "submitButton = (plainElement ''BUTTON'')
     \<lparr>textContent := ''Submit'', attributes := [(''data-testid'', ''submit-btn'')],
      typeProp := ''submit''\<rparr>"


definition emailInput :: element where
  "emailInput = (plainElement ''INPUT'')
     \<lparr>typeProp := ''email'', valueProp := ''a@b.c'', placeholder := ''Email''\<rparr>"

definition panelButton :: node where
  "panelButton =
     Element ((plainElement ''BUTTON'')\<lparr>className := ClassString ''enscriber-btn-primary''\<rparr>) []
       (Some (Element (plainElement ''DIV'') [] (Some (ShadowRoot ''enscriber-floating-panel''))))"

definition env0 :: env where
  "env0 = \<lparr>now = 1000, rnd = ''abc'', href = ''https://example.test/'', docTitle = ''Example'',
           innerWidth = 1280, innerHeight = 720, userAgent = ''UA'',
           localeString = ''1/1/2026'', gmThrows = False\<rparr>"

definition env1 :: env where
  "env1 = env0\<lparr>now := 2000, rnd := ''def''\<rparr>"

definition submitNode :: node where
  "submitNode = Element submitButton [] (Some bodyNode)"

text \<open>
  The system while a recording started from the panel is running (the lemma
  \<open>toggleRecording_starts\<close> shows that \<open>toggleRecording\<close> leads to it from the initial
  system), and a state manager whose store holds the initial state.
\<close>

definition sessionA :: session where
  "sessionA = initialSessionData env0 initialState"

definition recordingSystem :: system where
  "recordingSystem =
     initialSystem
       \<lparr>st := initialState\<lparr>mode := MANUAL_SELECTION, isRecording := True,
                            currentSession := Some sessionA\<rparr>,
        isSelectionMode := True, recordingMode := MANUAL_SELECTION,
        engineIsRecording := True, isMonitoring := True,
        storage := (\<lambda>k. None)(''settings'' :=
                     Some (StoredSettings (ui initialState) (settings initialState)))\<rparr>"

definition manager0 :: stateManager where
  "manager0 = \<lparr>objects = [initialState], stateRef = 0\<rparr>"

text \<open>
  Runs from the initial system through the calls of \<open>EnscribeCore\<close>, and a click on the
  submit button while the recording runs.
\<close>

definition started :: "system option" where
  "started = startSession env0 initialSystem None None"

definition paused :: "system option" where
  "paused = Option.bind started (pauseSession env0)"

definition stoppedWhilePaused :: "system option" where
  "stoppedWhilePaused = Option.bind paused (stopSession env0)"

definition clicked :: "system option" where
  "clicked = clickOn env0 submitNode recordingSystem"

definition startAgain :: "system \<Rightarrow> system option" where
  "startAgain s = startSession env1 s None None"



definition foreignSelect :: element where
  "foreignSelect = (plainElement ''select'')\<lparr>textContent := ''Pick one''\<rparr>"

definition foreignSelectNode :: node where
  "foreignSelectNode = Element foreignSelect [] (Some bodyNode)"

definition confirmationCss :: string where
  "confirmationCss =
     ''position: fixed; top: 20px; right: 20px; background: rgb(34, 197, 94); ''
     @ ''color: white; padding: 8px 16px; border-radius: 4px; font-size: 12px; ''
     @ ''font-weight: 500; z-index: 1000001; ''
     @ ''box-shadow: rgba(0, 0, 0, 0.15) 0px 4px 12px; animation: slideIn 0.3s ease-out;''"

definition confirmationBounds :: rect where
  "confirmationBounds = \<lparr>r_left = 1100, r_top = 20, r_width = 160, r_height = 30\<rparr>"

definition confirmationStyle :: computedStyle where
  "confirmationStyle =
     \<lparr>display = ''block'', visibility = ''visible'', opacity = ''1'', zIndex = ''1000001''\<rparr>"

definition panelContainer :: element where
  "panelContainer = (plainElement ''DIV'')
     \<lparr>idProp := ''enscriber-floating-panel'',
      attributes := [(''id'', ''enscriber-floating-panel'')]\<rparr>"

definition highlightOverlay :: element where
  "highlightOverlay = (plainElement ''DIV'')
     \<lparr>idProp := ''enscriber-highlight-overlay'',
      attributes := [(''id'', ''enscriber-highlight-overlay'')],
      style := \<lparr>display = ''none'', visibility = ''visible'', opacity = ''1'',
                 zIndex = ''999998''\<rparr>\<rparr>"

definition confirmationNode :: node where
  "confirmationNode =
     Element (confirmationElement confirmationCss ''CLICK action recorded''
                (Some confirmationBounds) confirmationStyle)
       [highlightOverlay, panelContainer, submitButton] (Some bodyNode)"

text \<open>
  A recording made through the panel and the page: the recording button starts it, the
  submit button is clicked, the page is hidden (which pauses the recording), the recording
  button resumes it, the email field is clicked, Escape ends the selection mode and the
  recording button stops the recording.
\<close>

definition env2 :: env where
  "env2 = env0\<lparr>now := 3000, rnd := ''ghi''\<rparr>"

definition emailNode :: node where
  "emailNode = Element emailInput [submitButton] (Some bodyNode)"

definition afterStart :: "system option" where
  "afterStart = handleStartRecording env0 initialSystem"

definition afterFirstClick :: "system option" where
  "afterFirstClick = Option.bind afterStart (clickOn env0 submitNode)"

definition afterHidden :: "system option" where
  "afterHidden = Option.bind afterFirstClick (handleVisibilityChange env0 True)"

definition afterResume :: "system option" where
  "afterResume = Option.bind afterHidden (handleStartRecording env1)"

definition afterSecondClick :: "system option" where
  "afterSecondClick = Option.bind afterResume (clickOn env1 emailNode)"

definition afterEscape :: "system option" where
  "afterEscape = map_option (handleKeyDown ''Escape'') afterSecondClick"

definition afterStop :: "system option" where
  "afterStop = Option.bind afterEscape (handleStartRecording env2)"

section \<open>Lemmas about strings and the XPath loops\<close>

lemma countPreceding_filter:
  "countPreceding tag sibs index = index + length (filter (\<lambda>s. tagName s = tag) sibs)"
  by (induction sibs arbitrary: index) auto

lemma chainOf_parentElement: "chainOf (parentElement (Element e sibs p)) = chainOf p"
  by (cases "Element e sibs p" rule: parentElement.cases) (auto simp: chainOf_def)

lemma chainOf_Element: "chainOf (Some (Element e sibs p)) = (e, sibs) # chainOf p"
  by (simp add: chainOf_def split: option.splits)

lemma xpathPart_positionalStep: "xpathPart e sibs = positionalStep (e, sibs)"
  by (simp add: xpathPart_def positionalStep_def sameTagBefore_def countPreceding_filter Let_def)

lemma xpathLoop_chain:
  "xpathLoop current parts = map positionalStep (rev (chainOf current)) @ parts"
proof (induction current parts rule: xpathLoop.induct)
  case (1 e sibs p parts)
  then show ?case
    by (simp add: chainOf_parentElement chainOf_Element xpathPart_positionalStep)
qed (simp_all add: chainOf_def)







text \<open>
  What \<open>trim\<close> removes and what it leaves: the string is its trimmed part between two
  runs of white space, and the trimmed part neither starts nor ends with white space.
\<close>

lemma trim_decompose:
  "s = takeWhile isSpace s @ trim s @ rev (takeWhile isSpace (rev (dropWhile isSpace s)))"
proof -
  let ?rest = "dropWhile isSpace s"
  have "rev ?rest = takeWhile isSpace (rev ?rest) @ dropWhile isSpace (rev ?rest)"
    by simp
  then have "?rest = rev (dropWhile isSpace (rev ?rest)) @ rev (takeWhile isSpace (rev ?rest))"
    by (metis rev_append rev_rev_ident)
  moreover have "s = takeWhile isSpace s @ ?rest" by simp
  ultimately show ?thesis unfolding trim_def by metis
qed

lemma trim_removes_spaces_only:
  "list_all isSpace (takeWhile isSpace s)"
  "list_all isSpace (rev (takeWhile isSpace (rev (dropWhile isSpace s))))"
  by (simp_all add: list_all_iff) (metis set_takeWhileD)+

lemma trim_ends:
  assumes "trim s \<noteq> []"
  shows "\<not> isSpace (hd (trim s))" and "\<not> isSpace (last (trim s))"
proof -
  let ?rest = "dropWhile isSpace s"
  let ?kept = "dropWhile isSpace (rev ?rest)"
  from assms have kept: "?kept \<noteq> []" by (simp add: trim_def)
  have rest: "?rest \<noteq> []"
  proof
    assume "?rest = []"
    then have "?kept = []" by (simp only: rev.simps dropWhile.simps)
    with kept show False by simp
  qed
  have "last (trim s) = hd ?kept" using kept by (simp add: trim_def last_rev)
  then show "\<not> isSpace (last (trim s))" using kept by (simp add: hd_dropWhile)
  have "rev ?rest = takeWhile isSpace (rev ?rest) @ ?kept" by simp
  then have "last (rev ?rest) = last ?kept" using kept by (metis last_appendR)
  then have "hd (trim s) = hd ?rest" using rest kept by (simp add: trim_def hd_rev last_rev)
  then show "\<not> isSpace (hd (trim s))" using rest by (simp add: hd_dropWhile)
qed

section \<open>Selector synthesis\<close>

text \<open>
  C2. For every element node the capture returns a selector, and it is not the empty
  string: the \<open>xpath\<close> of the metadata is what \<open>generateXPath\<close> returns. The
  positional path can always be made: the loop of \<open>generateXPath\<close> yields one step for
  the node and one for each element above it, in order from the topmost one, each the
  positional step of its element, so there is at least the node's own step. This path is
  the selector returned whenever the node has no \<open>id\<close>; a node with an \<open>id\<close> gets
  the path by \<open>id\<close>. Neither loop can run on (they are total functions here), and no
  statement of the capture can throw: making the action record fails only if reading the
  element's value does, and otherwise the record carries the selector.
\<close>

theorem selector_set_nonempty:
  "md_xpath (captureElementMetadata e sibs p) = generateXPath (Some (Element e sibs p))
   \<and> generateXPath (Some (Element e sibs p)) \<noteq> []
   \<and> xpathLoop (Some (Element e sibs p)) []
       = map positionalStep (rev (elementChain (Element e sibs p)))
   \<and> xpathLoop (Some (Element e sibs p)) [] \<noteq> []
   \<and> last (xpathLoop (Some (Element e sibs p)) []) = positionalStep (e, sibs)
   \<and> (idProp e = [] \<longrightarrow>
         generateXPath (Some (Element e sibs p))
           = ''/'' @ join ''/'' (map positionalStep (rev (elementChain (Element e sibs p)))))
   \<and> (idProp e \<noteq> [] \<longrightarrow>
         generateXPath (Some (Element e sibs p)) = ''//*[@id=\"'' @ idProp e @ ''\"]'')
   \<and> (case elementActionRecord env e sibs p actionType of
         Inl err \<Rightarrow> getElementValue e (detectedActionType actionType e) = Inl err
       | Inr r \<Rightarrow>
           map_option md_xpath (ar_element r) = Some (generateXPath (Some (Element e sibs p))))"
proof -
  let ?n = "Element e sibs p"
  have 1: "md_xpath (captureElementMetadata e sibs p) = generateXPath (Some ?n)"
    by (simp add: captureElementMetadata_def Let_def)
  have 2: "generateXPath (Some ?n) \<noteq> []" by simp
  have 3: "xpathLoop (Some ?n) [] = map positionalStep (rev (elementChain ?n))"
    by (simp add: xpathLoop_chain chainOf_def del: xpathLoop.simps elementChain.simps)
  have 4: "xpathLoop (Some ?n) [] \<noteq> []" unfolding 3 by simp
  have 5: "last (xpathLoop (Some ?n) []) = positionalStep (e, sibs)" unfolding 3 by simp
  have 6: "idProp e = [] \<longrightarrow>
         generateXPath (Some ?n) = ''/'' @ join ''/'' (map positionalStep (rev (elementChain ?n)))"
    by (simp add: xpathLoop_chain chainOf_def del: xpathLoop.simps elementChain.simps)
  have 8: "idProp e \<noteq> [] \<longrightarrow> generateXPath (Some ?n) = ''//*[@id=\"'' @ idProp e @ ''\"]''"
    by simp
  have 7: "case elementActionRecord env e sibs p actionType of
         Inl err \<Rightarrow> getElementValue e (detectedActionType actionType e) = Inl err
       | Inr r \<Rightarrow> map_option md_xpath (ar_element r) = Some (generateXPath (Some ?n))"
    by (cases "getElementValue e (detectedActionType actionType e)")
       (simp_all add: elementActionRecord_def Let_def 1)
  from 1 2 3 4 5 6 8 7 show ?thesis by (intro conjI)
qed

theorem selector_set_nonempty_witness:
  "md_xpath (captureElementMetadata (plainElement ''SPAN'') [] (Some mainDiv))
     = ''/html/body/div/span''
   \<and> xpathLoop (Some spanInMain) [] = [''html'', ''body'', ''div'', ''span'']
   \<and> generateXPath (Some spanInMain) = ''/html/body/div/span''
   \<and> map_option md_xpath
        (case elementActionRecord env0 (plainElement ''SPAN'') [] (Some mainDiv) ''click'' of
           Inl err \<Rightarrow> None | Inr r \<Rightarrow> ar_element r)
      = Some ''/html/body/div/span''"
proof -
  note t = selector_set_nonempty[where e = "plainElement ''SPAN''" and sibs = "[]"
      and p = "Some mainDiv" and env = env0 and actionType = "''click''"]
  have id: "idProp (plainElement ''SPAN'') = []" by (simp add: plainElement_def)
  have steps: "map positionalStep (rev (elementChain (Element (plainElement ''SPAN'') []
                  (Some mainDiv)))) = [''html'', ''body'', ''div'', ''span'']"
    by code_simp
  have path: "''/'' @ join ''/'' [''html'', ''body'', ''div'', ''span''] = ''/html/body/div/span''"
    by code_simp
  have r: "\<exists>r. elementActionRecord env0 (plainElement ''SPAN'') [] (Some mainDiv) ''click'' = Inr r"
    by (simp add: elementActionRecord_def getElementValue_def detectedActionType_def Let_def
        plainElement_def toLowerCase_def)
  from t[THEN conjunct2, THEN conjunct2, THEN conjunct2, THEN conjunct2, THEN conjunct2,
         THEN conjunct1, THEN mp, OF id]
  have g: "generateXPath (Some spanInMain) = ''/html/body/div/span''"
    unfolding steps path by (simp add: spanInMain_def)
  from t[THEN conjunct1] g
  have m: "md_xpath (captureElementMetadata (plainElement ''SPAN'') [] (Some mainDiv))
           = ''/html/body/div/span''"
    by (simp add: spanInMain_def)
  from t[THEN conjunct2, THEN conjunct2, THEN conjunct1] steps
  have l: "xpathLoop (Some spanInMain) [] = [''html'', ''body'', ''div'', ''span'']"
    by (simp add: spanInMain_def del: xpathLoop.simps elementChain.simps)
  from r obtain rec where rec: "elementActionRecord env0 (plainElement ''SPAN'') []
      (Some mainDiv) ''click'' = Inr rec" ..
  from t[THEN conjunct2, THEN conjunct2, THEN conjunct2, THEN conjunct2, THEN conjunct2,
         THEN conjunct2, THEN conjunct2] rec g
  have "map_option md_xpath (ar_element rec) = Some ''/html/body/div/span''"
    by (simp add: spanInMain_def)
  with rec m l g show ?thesis by simp
qed



text \<open>
  C3, as the code has it. A node with an \<open>id\<close> of its own gets \<open>//*[@id="..."]\<close>; the
  ids of its ancestors are never consulted. Every other node gets the positional path
  from the topmost element down to the node, each step being the lower-cased tag, followed
  by \<open>[index]\<close> only when the index (one more than the number of preceding siblings with
  the same tag) exceeds 1.
\<close>

theorem generateXPath_own_id_or_positional:
  "generateXPath (Some (Element e sibs p)) =
     (if idProp e \<noteq> [] then ''//*[@id=\"'' @ idProp e @ ''\"]''
      else ''/'' @ join ''/'' (map positionalStep (rev (elementChain (Element e sibs p)))))"
  by (simp add: xpathLoop_chain chainOf_def del: xpathLoop.simps elementChain.simps)

theorem generateXPath_own_id_or_positional_witness:
  "generateXPath (Some mainDiv) = ''//*[@id=\"main\"]''
   \<and> generateXPath (Some spanInMain) =
       ''/'' @ join ''/'' (map positionalStep (rev (elementChain spanInMain)))"
  using generateXPath_own_id_or_positional[of "(plainElement ''DIV'')\<lparr>idProp := ''main''\<rparr>"
          "[]" "Some bodyNode"]
        generateXPath_own_id_or_positional[of "plainElement ''SPAN''" "[]" "Some mainDiv"]
  by (simp add: mainDiv_def spanInMain_def plainElement_def)

text \<open>
  C3 as stated fails: the \<open>span\<close> below has no \<open>id\<close>, its parent has the \<open>id\<close>
  \<open>main\<close>, and the path produced is the absolute positional one, not one anchored at
  that ancestor.
\<close>

theorem generateXPath_not_anchored_at_ancestor:
  "nearestAncestorId spanInMain = Some ''main''
   \<and> generateXPath (Some spanInMain) = ''/html/body/div/span''
   \<and> \<not> anchoredAt ''main'' (generateXPath (Some spanInMain))"
  by code_simp




section \<open>Action classification\<close>

text \<open>
  What the classification of a click gives, by the tag and the type of the element: an
  input of type text, email, password, search, tel or url gives \<open>input\<close> with the
  field's value or, when that is empty, its placeholder; a checkbox or radio input gives
  \<open>check\<close> with \<open>checked\<close> or \<open>unchecked\<close>; a textarea gives \<open>input\<close>; every
  element that is none of these and no select keeps \<open>click\<close>, with its text content
  trimmed and cut to at most 50 characters. An element with the tag \<open>select\<close> gives
  \<open>select\<close>, and its value is the text of the first selected option (the empty string
  when none is selected) if the element has \<open>selectedOptions\<close>; if it has not, reading
  the value throws.
\<close>

lemma classification_table:
  "(toLowerCase (tagName e) = ''input''
      \<and> toLowerCase (typeProp e) \<in> {''text'', ''email'', ''password'', ''search'', ''tel'', ''url''}
     \<longrightarrow> detectedActionType ''click'' e = ''input''
         \<and> getElementValue e ''input''
             = Inr (if valueProp e \<noteq> [] then valueProp e else placeholder e))
   \<and> (toLowerCase (tagName e) = ''input''
      \<and> toLowerCase (typeProp e) \<in> {''checkbox'', ''radio''}
     \<longrightarrow> detectedActionType ''click'' e = ''check''
         \<and> getElementValue e ''check'' = Inr (if checked e then ''checked'' else ''unchecked''))
   \<and> (toLowerCase (tagName e) = ''select''
     \<longrightarrow> detectedActionType ''click'' e = ''select''
         \<and> getElementValue e ''select''
             = (case selectedOptions e of
                  None \<Rightarrow> Inl TypeError
                | Some [] \<Rightarrow> Inr []
                | Some (opt # rest) \<Rightarrow> Inr opt))
   \<and> (toLowerCase (tagName e) = ''textarea''
     \<longrightarrow> detectedActionType ''click'' e = ''input''
         \<and> getElementValue e ''input''
             = Inr (if valueProp e \<noteq> [] then valueProp e else placeholder e))
   \<and> (\<not> (toLowerCase (tagName e) = ''input''
          \<and> toLowerCase (typeProp e) \<in> {''text'', ''email'', ''password'', ''search'', ''tel'',
                                         ''url'', ''checkbox'', ''radio''})
      \<and> toLowerCase (tagName e) \<noteq> ''select'' \<and> toLowerCase (tagName e) \<noteq> ''textarea''
     \<longrightarrow> detectedActionType ''click'' e = ''click''
         \<and> getElementValue e ''click'' = Inr (substring0 50 (trim (textContent e)))
         \<and> length (substring0 50 (trim (textContent e))) \<le> 50)"
  by (auto simp: detectedActionType_def getElementValue_def Let_def
      toLowerCase_def substring0_def trim_def)

lemma classification_record:
  "elementActionRecord env e sibs p actionType
     = (case getElementValue e (detectedActionType actionType e) of
          Inl err \<Rightarrow> Inl err
        | Inr v \<Rightarrow>
            Inr \<lparr>ar_id = generateActionId env, ar_timestamp = now env,
                 ar_type = detectedActionType actionType e,
                 ar_element = Some (captureElementMetadata e sibs p),
                 ar_networkRequest = None, ar_value = Some v, ar_notes = [],
                 ar_context = currentContext env\<rparr>)"
  by (simp add: elementActionRecord_def Let_def)

text \<open>
  C5 at a concrete input: an element whose tag name is \<open>select\<close> and which has no
  \<open>selectedOptions\<close>, clicked while a recording runs. It is classified as \<open>select\<close>;
  reading its value throws a \<open>TypeError\<close>, so the classification yields no value, the
  click listener ends with the exception and no action is recorded.
\<close>

theorem select_without_options_throws:
  "detectedActionType ''click'' foreignSelect = ''select''
   \<and> getElementValue foreignSelect ''select'' = Inl TypeError
   \<and> elementActionRecord env0 foreignSelect [] (Some bodyNode) ''click'' = Inl TypeError
   \<and> isExcludedElement (Some foreignSelectNode) = False
   \<and> thrownBy (handleClick env0 recordingSystem (Some foreignSelectNode)) = Some TypeError
   \<and> recordedTypes (Some recordingSystem) = Some []
   \<and> recordedTypes (clickOn env0 foreignSelectNode recordingSystem) = Some []"
  by code_simp

section \<open>Lemmas about setState and the recording listener\<close>

lemma st_gmSetValue [simp]: "st (gmSetValue env key v msg sys) = st sys"
  and isSelectionMode_gmSetValue [simp]:
    "isSelectionMode (gmSetValue env key v msg sys) = isSelectionMode sys"
  by (simp_all add: gmSetValue_def)

lemma st_autoSaveState [simp]: "st (autoSaveState env sys) = st sys"
  and isSelectionMode_autoSaveState [simp]:
    "isSelectionMode (autoSaveState env sys) = isSelectionMode sys"
  by (simp_all add: autoSaveState_def saveState_def)

lemma st_monitoring [simp]:
  "st (startMonitoring sys) = st sys" "st (stopMonitoring sys) = st sys"
  "st (disableSelectionMode sys) = st sys"
  by (simp_all add: startMonitoring_def stopMonitoring_def disableSelectionMode_def)

lemma st_warnBounds [simp]: "st (warnBounds e sys) = st sys"
  by (simp add: warnBounds_def split: option.splits)

lemma setStateN_same_mode:
  assumes "mode (mergeState (st sys) u) = mode (st sys)"
  shows "setStateN (Suc k) env sys u
         = Some (autoSaveState env (sys\<lparr>st := mergeState (st sys) u\<rparr>))"
  using assms by (simp add: recordingListener_def Let_def)

lemma frameEq_refl [simp]: "frameEq a a"
  by (simp add: frameEq_def)

lemma frameEq_trans: "frameEq a b \<Longrightarrow> frameEq b c \<Longrightarrow> frameEq a c"
  by (simp add: frameEq_def)

lemma frameEq_merge_session [simp]:
  "frameEq (mergeState s (noUpdates\<lparr>u_currentSession := x\<rparr>)) b = frameEq s b"
  by (simp add: frameEq_def mergeState_def noUpdates_def)

lemma frameEq_merge_mode [simp]:
  "frameEq (mergeState s (noUpdates\<lparr>u_mode := x\<rparr>)) b = frameEq s b"
  by (simp add: frameEq_def mergeState_def noUpdates_def)

lemma initializeSession_frame:
  assumes "\<And>sys u s'. ss sys u = Some s' \<Longrightarrow> frameEq (mergeState (st sys) u) (st s')"
    and "initializeSession ss env sys = Some s'"
  shows "frameEq (st sys) (st s')"
  using assms(1)[OF assms(2)[unfolded initializeSession_def]] by simp

lemma enableSelectionMode_frame:
  assumes "\<And>sys u s'. ss sys u = Some s' \<Longrightarrow> frameEq (mergeState (st sys) u) (st s')"
    and "enableSelectionMode ss sys = Some s'"
  shows "frameEq (st sys) (st s')"
proof (cases "isSelectionMode sys")
  case True
  with assms(2) show ?thesis by (simp add: enableSelectionMode_def)
next
  case False
  with assms(2) have "ss (sys\<lparr>isSelectionMode := True\<rparr>) (noUpdates\<lparr>u_mode := Some MANUAL_SELECTION\<rparr>) = Some s'"
    by (simp add: enableSelectionMode_def)
  from assms(1)[OF this] show ?thesis by simp
qed

lemma start_frame:
  assumes "\<And>sys u s'. ss sys u = Some s' \<Longrightarrow> frameEq (mergeState (st sys) u) (st s')"
    and "startManualSelection ss env sys = Some s' \<or> startAutoRecording ss env sys = Some s'"
  shows "frameEq (st sys) (st s')"
proof -
  from assms(2) obtain s1 s2 where 1: "initializeSession ss env sys = Some s1"
    and 2: "enableSelectionMode ss s1 = Some s2"
    and 3: "s' = (startMonitoring s2)\<lparr>engineIsRecording := True\<rparr>"
    by (auto simp: startManualSelection_def startAutoRecording_def split: option.splits)
  have "frameEq (st sys) (st s1)" using initializeSession_frame[OF assms(1) 1] .
  moreover have "frameEq (st s1) (st s2)" using enableSelectionMode_frame[OF assms(1) 2] .
  ultimately show ?thesis using 3 by (auto intro: frameEq_trans)
qed

lemma stopRecording_frame:
  assumes "\<And>sys u s'. ss sys u = Some s' \<Longrightarrow> frameEq (mergeState (st sys) u) (st s')"
    and "stopRecording ss env sys = Some s'"
  shows "frameEq (st sys) (st s')"
proof (cases "currentSession (st sys)")
  case None
  with assms(2) show ?thesis by (auto simp: stopRecording_def Let_def getState_def)
next
  case (Some cs)
  with assms(2) obtain s2 x where "ss s2 (noUpdates\<lparr>u_currentSession := x\<rparr>) = Some s'" "st s2 = st sys"
    by (auto simp: stopRecording_def Let_def getState_def)
  with assms(1)[OF this(1)] show ?thesis by simp
qed

lemma handleModeChange_frame:
  assumes "\<And>sys u s'. ss sys u = Some s' \<Longrightarrow> frameEq (mergeState (st sys) u) (st s')"
    and "handleModeChange ss env sys m = Some s'"
  shows "frameEq (st sys) (st s')"
proof (cases m)
  case INACTIVE
  with assms(2) have "stopRecording ss env (sys\<lparr>recordingMode := m\<rparr>) = Some s'"
    by (simp add: handleModeChange_def)
  from stopRecording_frame[OF assms(1) this] show ?thesis by simp
next
  case AUTO_RECORDING
  with assms(2) have "startManualSelection ss env (sys\<lparr>recordingMode := m\<rparr>) = Some s'
      \<or> startAutoRecording ss env (sys\<lparr>recordingMode := m\<rparr>) = Some s'"
    by (simp add: handleModeChange_def)
  from start_frame[OF assms(1) this] show ?thesis by simp
next
  case MANUAL_SELECTION
  with assms(2) have "startManualSelection ss env (sys\<lparr>recordingMode := m\<rparr>) = Some s'
      \<or> startAutoRecording ss env (sys\<lparr>recordingMode := m\<rparr>) = Some s'"
    by (simp add: handleModeChange_def)
  from start_frame[OF assms(1) this] show ?thesis by simp
next
  case PAUSED
  with assms(2) show ?thesis by (auto simp: handleModeChange_def pauseRecording_def)
qed

lemma setStateN_frame:
  "setStateN k env sys u = Some s' \<Longrightarrow> frameEq (mergeState (st sys) u) (st s')"
proof (induction k arbitrary: sys u s')
  case 0
  then show ?case by simp
next
  case (Suc k)
  let ?s1 = "sys\<lparr>st := mergeState (st sys) u\<rparr>"
  from Suc.prems obtain s2 where
    l: "recordingListener (setStateN k env) env ?s1 (st ?s1) (st sys) = Some s2"
    and s': "s' = autoSaveState env s2"
    by (auto simp: Let_def split: option.splits)
  have "frameEq (st ?s1) (st s2)"
  proof (cases "mode (st ?s1) \<noteq> mode (st sys)")
    case True
    with l have "handleModeChange (setStateN k env) env ?s1 (mode (st ?s1)) = Some s2"
      by (simp add: recordingListener_def)
    from handleModeChange_frame[OF Suc.IH this] show ?thesis .
  next
    case False
    with l show ?thesis by (simp add: recordingListener_def)
  qed
  with s' show ?case by simp
qed

lemma mode_merge_session [simp]:
  "mode (mergeState s (noUpdates\<lparr>u_currentSession := x\<rparr>)) = mode s"
  by (simp add: mergeState_def noUpdates_def)

lemma mode_merge_mode [simp]:
  "mode (mergeState s (noUpdates\<lparr>u_mode := Some m\<rparr>)) = m"
  by (simp add: mergeState_def noUpdates_def)

lemma initializeSession_Suc:
  "initializeSession (setStateN (Suc k) env) env sys =
     Some (autoSaveState env
       (sys\<lparr>st := mergeState (st sys)
          (noUpdates\<lparr>u_currentSession := Some (Some (initialSessionData env (st sys)))\<rparr>)\<rparr>))"
  unfolding initializeSession_def getState_def by (rule setStateN_same_mode) simp

lemma start_manual_total:
  assumes "mode (st sys) = MANUAL_SELECTION \<or> isSelectionMode sys"
  shows "\<exists>r. startManualSelection (setStateN (Suc k) env) env sys = Some r"
    and "\<exists>r. startAutoRecording (setStateN (Suc k) env) env sys = Some r"
proof -
  let ?s1 = "autoSaveState env
       (sys\<lparr>st := mergeState (st sys)
          (noUpdates\<lparr>u_currentSession := Some (Some (initialSessionData env (st sys)))\<rparr>)\<rparr>)"
  have "\<exists>r. enableSelectionMode (setStateN (Suc k) env) ?s1 = Some r"
  proof (cases "isSelectionMode sys")
    case True
    then show ?thesis by (simp add: enableSelectionMode_def)
  next
    case False
    with assms have m: "mode (st sys) = MANUAL_SELECTION" by simp
    have "setStateN (Suc k) env (?s1\<lparr>isSelectionMode := True\<rparr>)
            (noUpdates\<lparr>u_mode := Some MANUAL_SELECTION\<rparr>) \<noteq> None"
      by (subst setStateN_same_mode) (simp_all add: m)
    with False show ?thesis by (auto simp: enableSelectionMode_def)
  qed
  then show "\<exists>r. startManualSelection (setStateN (Suc k) env) env sys = Some r"
    and "\<exists>r. startAutoRecording (setStateN (Suc k) env) env sys = Some r"
    by (auto simp: startManualSelection_def startAutoRecording_def initializeSession_Suc)
qed

lemma stopRecording_total:
  "\<exists>r. stopRecording (setStateN (Suc k) env) env sys = Some r"
proof (cases "currentSession (st sys)")
  case None
  then show ?thesis by (simp add: stopRecording_def Let_def getState_def)
next
  case (Some cs)
  then show ?thesis
    by (simp add: stopRecording_def Let_def getState_def setStateN_same_mode del: setStateN.simps)
qed

lemma setStateN_total2:
  assumes "isSelectionMode sys \<or> mode (mergeState (st sys) u) \<noteq> AUTO_RECORDING
           \<or> mode (mergeState (st sys) u) = mode (st sys)"
  shows "\<exists>r. setStateN (Suc (Suc k)) env sys u = Some r"
proof (cases "mode (mergeState (st sys) u) = mode (st sys)")
  case True
  then show ?thesis by (simp add: setStateN_same_mode del: setStateN.simps)
next
  case False
  let ?s1 = "sys\<lparr>st := mergeState (st sys) u\<rparr>"
  let ?m = "mode (mergeState (st sys) u)"
  have "\<exists>r. handleModeChange (setStateN (Suc k) env) env ?s1 ?m = Some r"
  proof (cases ?m)
    case INACTIVE
    then show ?thesis using stopRecording_total by (simp add: handleModeChange_def del: setStateN.simps)
  next
    case AUTO_RECORDING
    with assms False have "isSelectionMode sys" by simp
    then show ?thesis using AUTO_RECORDING
        start_manual_total(2)[of "?s1\<lparr>recordingMode := AUTO_RECORDING\<rparr>" k env]
      by (simp add: handleModeChange_def del: setStateN.simps)
  next
    case MANUAL_SELECTION
    then show ?thesis
      using start_manual_total(1)[of "?s1\<lparr>recordingMode := MANUAL_SELECTION\<rparr>" k env]
      by (simp add: handleModeChange_def del: setStateN.simps)
  next
    case PAUSED
    then show ?thesis by (simp add: handleModeChange_def)
  qed
  then obtain r where "handleModeChange (setStateN (Suc k) env) env ?s1 ?m = Some r" ..
  with False show ?thesis
    by (simp add: setStateN.simps(2)[of "Suc k"] recordingListener_def Let_def del: setStateN.simps)
qed

lemma setStateN_total: "\<exists>r. setStateN (Suc (Suc (Suc k))) env sys u = Some r"
proof (cases "mode (mergeState (st sys) u) = mode (st sys)")
  case True
  then show ?thesis by (simp add: setStateN_same_mode del: setStateN.simps)
next
  case False
  let ?s1 = "sys\<lparr>st := mergeState (st sys) u\<rparr>"
  let ?m = "mode (mergeState (st sys) u)"
  let ?ss = "setStateN (Suc (Suc k)) env"
  have "\<exists>r. handleModeChange ?ss env ?s1 ?m = Some r"
  proof (cases ?m)
    case INACTIVE
    then show ?thesis using stopRecording_total by (simp add: handleModeChange_def del: setStateN.simps)
  next
    case AUTO_RECORDING
    let ?s2 = "autoSaveState env
       ((?s1\<lparr>recordingMode := AUTO_RECORDING\<rparr>)\<lparr>st := mergeState (st ?s1)
          (noUpdates\<lparr>u_currentSession := Some (Some (initialSessionData env (st ?s1)))\<rparr>)\<rparr>)"
    have "\<exists>r. enableSelectionMode ?ss ?s2 = Some r"
    proof (cases "isSelectionMode sys")
      case True
      then show ?thesis by (simp add: enableSelectionMode_def)
    next
      case False
      have "\<exists>r. ?ss (?s2\<lparr>isSelectionMode := True\<rparr>) (noUpdates\<lparr>u_mode := Some MANUAL_SELECTION\<rparr>) = Some r"
        by (rule setStateN_total2) simp
      with False show ?thesis by (simp add: enableSelectionMode_def del: setStateN.simps)
    qed
    then show ?thesis using AUTO_RECORDING
      by (auto simp: handleModeChange_def startAutoRecording_def initializeSession_Suc
          simp del: setStateN.simps)
  next
    case MANUAL_SELECTION
    then show ?thesis
      using start_manual_total(1)[of "?s1\<lparr>recordingMode := MANUAL_SELECTION\<rparr>" "Suc k" env]
      by (simp add: handleModeChange_def del: setStateN.simps)
  next
    case PAUSED
    then show ?thesis by (simp add: handleModeChange_def)
  qed
  then obtain r where "handleModeChange ?ss env ?s1 ?m = Some r" ..
  with False show ?thesis
    by (simp add: setStateN.simps(2)[of "Suc (Suc k)"] recordingListener_def Let_def
        del: setStateN.simps)
qed

text \<open>A larger bound gives the same result.\<close>

lemma handleModeChange_mono:
  assumes "\<And>sys u r. ss sys u = Some r \<Longrightarrow> ss' sys u = Some r"
    and "handleModeChange ss env sys m = Some r"
  shows "handleModeChange ss' env sys m = Some r"
proof -
  have init: "\<And>s r. initializeSession ss env s = Some r \<Longrightarrow> initializeSession ss' env s = Some r"
    by (simp add: initializeSession_def assms(1))
  have en: "\<And>s r. enableSelectionMode ss s = Some r \<Longrightarrow> enableSelectionMode ss' s = Some r"
    by (auto simp: enableSelectionMode_def assms(1) split: if_splits)
  have stop: "\<And>s r. stopRecording ss env s = Some r \<Longrightarrow> stopRecording ss' env s = Some r"
    by (auto simp: stopRecording_def Let_def assms(1) split: option.splits)
  have man: "\<And>s r. startManualSelection ss env s = Some r \<Longrightarrow> startManualSelection ss' env s = Some r"
    by (auto simp: startManualSelection_def init en split: option.splits)
  have aut: "\<And>s r. startAutoRecording ss env s = Some r \<Longrightarrow> startAutoRecording ss' env s = Some r"
    by (auto simp: startAutoRecording_def init en split: option.splits)
  show ?thesis using assms(2)
    by (cases m) (auto simp: handleModeChange_def stop man aut)
qed

lemma setStateN_mono:
  "setStateN k env sys u = Some r \<Longrightarrow> setStateN (Suc k) env sys u = Some r"
proof (induction k arbitrary: sys u r)
  case 0
  then show ?case by simp
next
  case (Suc k)
  let ?s1 = "sys\<lparr>st := mergeState (st sys) u\<rparr>"
  from Suc.prems obtain s2 where
    l: "recordingListener (setStateN k env) env ?s1 (st ?s1) (st sys) = Some s2"
    and r: "r = autoSaveState env s2"
    by (auto simp: Let_def split: option.splits)
  have "recordingListener (setStateN (Suc k) env) env ?s1 (st ?s1) (st sys) = Some s2"
  proof (cases "mode (st ?s1) \<noteq> mode (st sys)")
    case True
    with l have "handleModeChange (setStateN k env) env ?s1 (mode (st ?s1)) = Some s2"
      by (simp add: recordingListener_def)
    from handleModeChange_mono[OF Suc.IH this] True show ?thesis
      by (simp add: recordingListener_def del: setStateN.simps)
  next
    case False
    with l have "s2 = ?s1" by (simp add: recordingListener_def)
    with False show ?thesis by (simp add: recordingListener_def)
  qed
  with r show ?case by (simp add: setStateN.simps(2)[of "Suc k"] Let_def del: setStateN.simps)
qed

lemma setStateN_stable: "3 \<le> k \<Longrightarrow> setStateN k env sys u = setStateN 3 env sys u"
proof (induction k)
  case 0
  then show ?case by simp
next
  case (Suc k)
  show ?case
  proof (cases "3 \<le> k")
    case True
    obtain r where r: "setStateN 3 env sys u = Some r"
      using setStateN_total[of 0 env sys u] by (auto simp: numeral_3_eq_3)
    with Suc.IH True have "setStateN k env sys u = Some r" by simp
    from setStateN_mono[OF this] r show ?thesis by simp
  next
    case False
    with Suc.prems have "Suc k = 3" by simp
    then show ?thesis by simp
  qed
qed

lemma setState_total: "\<exists>r. setState env sys u = Some r"
  using setStateN_total[of 0 env sys u] by (simp add: setState_def numeral_3_eq_3)

section \<open>Captures and persistence\<close>

lemma mode_merge_capture [simp]:
  "mode (mergeState s (noUpdates\<lparr>u_selectedElement := x, u_currentSession := y\<rparr>)) = mode s"
  by (simp add: mergeState_def noUpdates_def)

lemma currentSession_merge [simp]:
  "currentSession (mergeState s (noUpdates\<lparr>u_selectedElement := x, u_currentSession := Some y\<rparr>)) = y"
  "currentSession (mergeState s (noUpdates\<lparr>u_currentSession := Some y\<rparr>)) = y"
  by (simp_all add: mergeState_def noUpdates_def)

lemma setState_same_mode:
  assumes "mode (mergeState (st sys) u) = mode (st sys)"
  shows "setState env sys u = Some (autoSaveState env (sys\<lparr>st := mergeState (st sys) u\<rparr>))"
  unfolding setState_def numeral_3_eq_3 using assms by (rule setStateN_same_mode)

lemma selectElement_returns:
  assumes "elementActionRecord env e sibs p actionType = Inr r"
  shows "\<exists>s'. selectElement env sys e sibs p actionType = Some (Returned s')
          \<and> currentSession (st s')
              = Some ((sessionOrEmpty (st sys))
                       \<lparr>s_actions := s_actions (sessionOrEmpty (st sys)) @ [r]\<rparr>)
          \<and> mode (st s') = mode (st sys)"
  using assms by (simp add: selectElement_def Let_def getState_def setState_same_mode)

lemma selectElement_throws:
  assumes "elementActionRecord env e sibs p actionType = Inl err"
  shows "selectElement env sys e sibs p actionType
         = Some (Thrown err
                   (warnBounds e (warnBounds e
                      (sys\<lparr>selectorSelectedElement := Some (Element e sibs p)\<rparr>))))"
  using assms by (simp add: selectElement_def Let_def)

lemma captureStep_result:
  "\<exists>c. captureStep env sys cap = Some c
        \<and> sessionOrEmpty (st (stateAfter c))
            = (sessionOrEmpty (st sys))
                \<lparr>s_actions := s_actions (sessionOrEmpty (st sys)) @ recorded (env, cap)\<rparr>
        \<and> (currentSession (st sys) \<noteq> None \<longrightarrow> currentSession (st (stateAfter c)) \<noteq> None)
        \<and> mode (st (stateAfter c)) = mode (st sys)"
proof (cases cap)
  case (ElementCapture e sibs p)
  show ?thesis
  proof (cases "elementActionRecord env e sibs p ''click''")
    case (Inl err)
    with ElementCapture show ?thesis
      by (simp add: selectElement_throws recorded_def)
  next
    case (Inr r)
    from selectElement_returns[OF Inr, of sys] ElementCapture Inr show ?thesis
      by (auto simp: recorded_def sessionOrEmpty_def)
  qed
next
  case (RequestCapture r t)
  then show ?thesis
    by (simp add: addRequestToActions_def Let_def getState_def setState_same_mode
        recorded_def sessionOrEmpty_def)
qed

lemma runCaptures_session:
  "\<exists>s'. runCaptures sys cs = Some s'
        \<and> sessionOrEmpty (st s')
            = (sessionOrEmpty (st sys))
                \<lparr>s_actions := s_actions (sessionOrEmpty (st sys)) @ concat (map recorded cs)\<rparr>
        \<and> (currentSession (st sys) \<noteq> None \<longrightarrow> currentSession (st s') \<noteq> None)
        \<and> mode (st s') = mode (st sys)"
proof (induction cs arbitrary: sys)
  case Nil
  then show ?case by simp
next
  case (Cons ec rest)
  obtain c where 1: "captureStep (fst ec) sys (snd ec) = Some c"
    and 2: "sessionOrEmpty (st (stateAfter c))
            = (sessionOrEmpty (st sys))
                \<lparr>s_actions := s_actions (sessionOrEmpty (st sys)) @ recorded ec\<rparr>"
    and 3: "currentSession (st sys) \<noteq> None \<longrightarrow> currentSession (st (stateAfter c)) \<noteq> None"
    and 4: "mode (st (stateAfter c)) = mode (st sys)"
    using captureStep_result[of "fst ec" sys "snd ec"] by auto
  from Cons.IH[of "stateAfter c"] obtain s' where 5: "runCaptures (stateAfter c) rest = Some s'"
    and 6: "sessionOrEmpty (st s')
            = (sessionOrEmpty (st (stateAfter c)))
                \<lparr>s_actions := s_actions (sessionOrEmpty (st (stateAfter c)))
                                @ concat (map recorded rest)\<rparr>"
    and 7: "currentSession (st (stateAfter c)) \<noteq> None \<longrightarrow> currentSession (st s') \<noteq> None"
    and 8: "mode (st s') = mode (st (stateAfter c))" by blast
  from 1 2 3 4 5 6 7 8 show ?case by simp
qed

lemma sessionKey_not_settings [simp]: "sessionKey sd \<noteq> ''settings''"
  by (simp add: sessionKey_def)

lemma storage_autoSaveState_session [simp]:
  "storage (autoSaveState env sys) (sessionKey sd) = storage sys (sessionKey sd)"
  by (simp add: autoSaveState_def saveState_def gmSetValue_def)

lemma storage_monitoring [simp]:
  "storage (startMonitoring sys) = storage sys" "storage (stopMonitoring sys) = storage sys"
  "storage (disableSelectionMode sys) = storage sys"
  by (simp_all add: startMonitoring_def stopMonitoring_def disableSelectionMode_def)

lemma toggleRecording_stop:
  assumes "mode (st sys) \<noteq> INACTIVE" and "currentSession (st sys) = Some cs"
  shows "\<exists>s'. toggleRecording env sys = Some s'
          \<and> mode (st s') = INACTIVE
          \<and> currentSession (st s') = Some (cs\<lparr>s_endTime := Some (now env)\<rparr>)
          \<and> (if gmThrows env then storage s' (sessionKey cs) = storage sys (sessionKey cs)
              else storage s' (sessionKey cs)
                   = Some (StoredSession (cs\<lparr>s_endTime := Some (now env)\<rparr>)))"
proof -
  let ?u = "noUpdates\<lparr>u_mode := Some INACTIVE, u_isRecording := Some False\<rparr>"
  let ?s1 = "sys\<lparr>st := mergeState (st sys) ?u\<rparr>"
  have m: "mode (mergeState (st sys) ?u) = INACTIVE"
    and c: "currentSession (mergeState (st sys) ?u) = Some cs"
    using assms by (simp_all add: mergeState_def noUpdates_def)
  have key: "sessionKey (cs\<lparr>s_endTime := Some (now env)\<rparr>) = sessionKey cs"
    by (simp add: sessionKey_def)
  show ?thesis
    using assms m c
    by (simp add: toggleRecording_def getState_def setState_def numeral_3_eq_3
        recordingListener_def handleModeChange_def stopRecording_def Let_def
        setStateN_same_mode key gmSetValue_def
        del: setStateN.simps
        add: setStateN.simps(2)[of "Suc (Suc 0)"])
qed

lemma toggleRecording_starts: "toggleRecording env0 initialSystem = Some recordingSystem"
  by (simp add: toggleRecording_def getState_def setState_def numeral_3_eq_3
        recordingListener_def handleModeChange_def startManualSelection_def
        initializeSession_def enableSelectionMode_def startMonitoring_def Let_def
        setStateN_same_mode autoSaveState_def saveState_def gmSetValue_def
        initialSystem_def initialState_def recordingSystem_def sessionA_def env0_def
        mergeState_def noUpdates_def initialSessionData_def)

text \<open>
  What holds of captures. While a recording is running, a run of captures leaves a
  session whose actions are the actions present before followed by the record of each
  capture that made one, in the order of the captures: nothing recorded earlier is changed
  or moved. When the recording is stopped right after, the session written to storage has
  the same actions in the same order.
\<close>

lemma captures_append_in_order:
  assumes "mode (st sys) \<noteq> INACTIVE" and "currentSession (st sys) = Some sess"
    and "\<not> gmThrows env"
  shows "\<exists>s1 s2 saved.
           runCaptures sys cs = Some s1
         \<and> s_actions (sessionOrEmpty (st s1)) = s_actions sess @ concat (map recorded cs)
         \<and> toggleRecording env s1 = Some s2
         \<and> storage s2 (sessionKey sess) = Some (StoredSession saved)
         \<and> s_actions saved = s_actions sess @ concat (map recorded cs)"
proof -
  from runCaptures_session[of sys cs] assms(2) obtain s1 where
    1: "runCaptures sys cs = Some s1"
    and 2: "sessionOrEmpty (st s1)
            = sess\<lparr>s_actions := s_actions sess @ concat (map recorded cs)\<rparr>"
    and 3: "currentSession (st s1) \<noteq> None"
    and 4: "mode (st s1) = mode (st sys)"
    by (auto simp: sessionOrEmpty_def)
  let ?sess1 = "sess\<lparr>s_actions := s_actions sess @ concat (map recorded cs)\<rparr>"
  from 2 3 have 5: "currentSession (st s1) = Some ?sess1"
    by (auto simp: sessionOrEmpty_def)
  have key: "sessionKey ?sess1 = sessionKey sess" by (simp add: sessionKey_def)
  from toggleRecording_stop[of s1 ?sess1 env] 4 5 assms(1,3) key obtain s2 where
    "toggleRecording env s1 = Some s2"
    "storage s2 (sessionKey sess) = Some (StoredSession (?sess1\<lparr>s_endTime := Some (now env)\<rparr>))"
    by auto
  with 1 2 show ?thesis by auto
qed

text \<open>The states of the recording in which the page is hidden once, step by step.\<close>

lemma hidden_run_first_click:
  "outcome afterStart = Some (MANUAL_SELECTION, True, False, ''session_1000_abc'', [], [])
   \<and> recordedTypes afterFirstClick = Some [''click'']"
  by code_simp

lemma hidden_run_paused:
  "outcome afterHidden
     = Some (PAUSED, True, True, ''session_1000_abc'', [], [''sessionPaused''])
   \<and> recordedTypes afterHidden = Some [''click'']"
  by code_simp

lemma hidden_run_resumed:
  "outcome afterResume
     = Some (MANUAL_SELECTION, True, False, ''session_2000_def'', [], [''sessionPaused''])
   \<and> recordedTypes afterResume = Some []"
  by code_simp

lemma hidden_run_second_click: "recordedTypes afterSecondClick = Some [''input'']"
  by code_simp

lemma hidden_run_stopped:
  "outcome afterStop
     = Some (INACTIVE, False, False, ''session_2000_def'', [], [''sessionPaused''])"
  by code_simp

lemma hidden_run_saved:
  "savedSession afterStop ''enscriber_session_session_2000_def''
     = Some (Some 3000, [''input''])"
  by code_simp

lemma hidden_run_not_saved:
  "savedSession afterStop ''enscriber_session_session_1000_abc'' = None"
  by code_simp

text \<open>
  C9 at a concrete input: a recording in which the page is hidden once. The recording
  button starts the recording and a click on the submit button is recorded. Hiding the
  page pauses the recording, and the session still has its one action. The recording
  button then resumes: the mode is \<open>manual_selection\<close> again, but the current session is
  a new one with no actions. A click on the email field is recorded in it, and after
  Escape the recording button stops the recording. What is saved is the second session,
  with the one action \<open>input\<close>; the first session, with the click recorded before the
  pause, was never written to storage.
\<close>

theorem resume_discards_recorded_actions:
  "outcome afterStart = Some (MANUAL_SELECTION, True, False, ''session_1000_abc'', [], [])
   \<and> recordedTypes afterFirstClick = Some [''click'']
   \<and> outcome afterHidden
       = Some (PAUSED, True, True, ''session_1000_abc'', [], [''sessionPaused''])
   \<and> recordedTypes afterHidden = Some [''click'']
   \<and> outcome afterResume
       = Some (MANUAL_SELECTION, True, False, ''session_2000_def'', [], [''sessionPaused''])
   \<and> recordedTypes afterResume = Some []
   \<and> recordedTypes afterSecondClick = Some [''input'']
   \<and> outcome afterStop
       = Some (INACTIVE, False, False, ''session_2000_def'', [], [''sessionPaused''])
   \<and> savedSession afterStop ''enscriber_session_session_2000_def''
       = Some (Some 3000, [''input''])
   \<and> savedSession afterStop ''enscriber_session_session_1000_abc'' = None"
  using hidden_run_first_click hidden_run_paused hidden_run_resumed hidden_run_second_click
    hidden_run_stopped hidden_run_saved hidden_run_not_saved
  by (intro conjI) (erule conjunct1 conjunct2 | assumption)+

section \<open>Exclusion of the tool's own interface\<close>

text \<open>
  The page's \<open>body\<close> and \<open>html\<close> elements carry no marker of the tool, so the walk
  from a child of the body that has neither an \<open>id\<close> nor a class finds none, and none
  of the fallback selectors matches.
\<close>

lemma unmarked_body_child_not_excluded:
  assumes "idProp c = []" and "className c = ClassString []"
  shows "\<not> isExcludedElement (Some (Element c sibs (Some bodyNode)))"
  using assms
  by (simp add: hasEnscriberId_def hasEnscriberClass_def isPanel_def panelId_def
      inPanelShadowRoot_def nextInWalk_def bodyNode_def htmlNode_def plainElement_def
      excludeSelectors_def classAttribute_def)

text \<open>
  C8 on the confirmation that the tool itself shows after every capture. Whatever its
  message, its style and its place among the children of the body, it is not classified as
  excluded, and a click on it in selection mode is recorded like a click on the page: the
  click listener returns, and the session has one more action, of type \<open>click\<close>, whose
  value is the message (trimmed, its first 50 characters).
\<close>

theorem confirmation_click_is_recorded:
  assumes "isSelectionMode sys"
  shows "\<not> isExcludedElement
             (Some (Element (confirmationElement css message b computed) sibs (Some bodyNode)))
       \<and> (\<exists>s' r. handleClick env sys
                     (Some (Element (confirmationElement css message b computed) sibs
                              (Some bodyNode)))
                   = Some (Returned s')
              \<and> elementActionRecord env (confirmationElement css message b computed) sibs
                   (Some bodyNode) ''click'' = Inr r
              \<and> ar_type r = ''click''
              \<and> ar_value r = Some (substring0 50 (trim message))
              \<and> currentSession (st s')
                  = Some ((sessionOrEmpty (st sys))
                           \<lparr>s_actions := s_actions (sessionOrEmpty (st sys)) @ [r]\<rparr>))"
proof -
  let ?c = "confirmationElement css message b computed"
  have f: "tagName ?c = ''DIV''" "idProp ?c = []" "className ?c = ClassString []"
    "textContent ?c = message" "selectedOptions ?c = None"
    by (simp_all add: confirmationElement_def)
  have ex: "\<not> isExcludedElement (Some (Element ?c sibs (Some bodyNode)))"
    using f(2,3) by (rule unmarked_body_child_not_excluded)
  have low: "toLowerCase ''DIV'' = ''div''" by code_simp
  have e: "trim [] = []" by (simp add: trim_def)
  have d: "detectedActionType ''click'' ?c = ''click''"
    using f(1) by (simp add: detectedActionType_def Let_def low)
  have v: "getElementValue ?c ''click'' = Inr (substring0 50 (trim message))"
    using f(4) by (simp add: getElementValue_def substring0_def e)
  from d v obtain r where r: "elementActionRecord env ?c sibs (Some bodyNode) ''click'' = Inr r"
    and t: "ar_type r = ''click''"
    and a: "ar_value r = Some (substring0 50 (trim message))"
    by (simp add: classification_record)
  from selectElement_returns[OF r, of sys] obtain s' where
    "selectElement env sys ?c sibs (Some bodyNode) ''click'' = Some (Returned s')"
    "currentSession (st s')
       = Some ((sessionOrEmpty (st sys))
                \<lparr>s_actions := s_actions (sessionOrEmpty (st sys)) @ [r]\<rparr>)"
    by blast
  with ex assms r t a show ?thesis by (auto simp del: isExcludedElement.simps)
qed

theorem confirmation_click_is_recorded_witness:
  "isExcludedElement (Some confirmationNode) = False
   \<and> recordedTypes clicked = Some [''click'']
   \<and> recordedTypes (Option.bind clicked (clickOn env1 confirmationNode))
       = Some [''click'', ''click'']"
proof -
  have c1: "map_option isSelectionMode clicked = Some True" by code_simp
  have c2: "recordedTypes clicked = Some [''click'']" by code_simp
  obtain s where s1: "clicked = Some s" using c1 by (cases clicked) simp_all
  have s2: "isSelectionMode s" using c1 unfolding s1 by simp
  have s3: "map ar_type (s_actions (sessionOrEmpty (st s))) = [''click'']"
    using c2 unfolding s1 by (simp add: recordedTypes_def)
  note s = s1 s2 s3
  from confirmation_click_is_recorded[OF s(2), of confirmationCss "''CLICK action recorded''"
         "Some confirmationBounds" confirmationStyle
         "[highlightOverlay, panelContainer, submitButton]" env1]
  obtain s' r where n: "\<not> isExcludedElement (Some confirmationNode)"
    and k: "handleClick env1 s (Some confirmationNode) = Some (Returned s')"
    and t: "ar_type r = ''click''"
    and a: "currentSession (st s')
              = Some ((sessionOrEmpty (st s))
                       \<lparr>s_actions := s_actions (sessionOrEmpty (st s)) @ [r]\<rparr>)"
    by (auto simp: confirmationNode_def simp del: isExcludedElement.simps handleClick.simps)
  from a t s(3) have "map ar_type (s_actions (sessionOrEmpty (st s'))) = [''click'', ''click'']"
    by (simp add: sessionOrEmpty_def)
  with k have "recordedTypes (Option.bind clicked (clickOn env1 confirmationNode))
               = Some [''click'', ''click'']"
    unfolding s1 by (simp add: recordedTypes_def clickOn_def del: handleClick.simps)
  with n c2 show ?thesis by (simp del: isExcludedElement.simps)
qed

section \<open>The recording state machine\<close>

text \<open>
  Stopping through the recording engine (the panel's button, \<open>toggleRecording\<close>) is
  covered by \<open>toggleRecording_stop\<close> above: the mode becomes inactive, the session gets
  its end time, is written to storage and stays in the state. \<open>EnscribeCore.stopSession\<close>
  also writes the session, but then sets \<open>currentSession\<close> to \<open>null\<close>, and it leaves
  \<open>isPaused\<close> as it was.
\<close>

lemma stopSession_clears:
  assumes "currentSession (st sys) = Some cs"
  shows "\<exists>s'. stopSession env sys = Some s'
          \<and> mode (st s') = INACTIVE
          \<and> currentSession (st s') = None
          \<and> isPaused (st s') = isPaused (st sys)
          \<and> (if gmThrows env then storage s' (sessionKey cs) = storage sys (sessionKey cs)
              else storage s' (sessionKey cs)
                   = Some (StoredSession (cs\<lparr>s_endTime := Some (now env)\<rparr>)))"
proof -
  let ?u = "noUpdates\<lparr>u_currentSession := Some None, u_isRecording := Some False,
                      u_mode := Some INACTIVE\<rparr>"
  have key: "sessionKey (cs\<lparr>s_endTime := Some (now env)\<rparr>) = sessionKey cs"
    by (simp add: sessionKey_def)
  have m: "\<And>s. mode (mergeState s ?u) = INACTIVE"
    and c: "\<And>s. currentSession (mergeState s ?u) = None"
    and p: "\<And>s. isPaused (mergeState s ?u) = isPaused s"
    by (simp_all add: mergeState_def noUpdates_def)
  show ?thesis
  proof (cases "mode (st sys) = INACTIVE")
    case True
    with assms show ?thesis
      by (simp add: stopSession_def getState_def Let_def saveSession_def setState_same_mode
          m c p key emit_def gmSetValue_def)
  next
    case False
    with assms show ?thesis
      by (simp add: stopSession_def getState_def Let_def saveSession_def setState_def
          numeral_3_eq_3 recordingListener_def handleModeChange_def stopRecording_def
          m c p key emit_def gmSetValue_def)
  qed
qed

text \<open>
  C6 at a concrete input: a recording with one captured click is stopped at time 2000.
  Through \<open>stopSession\<close> the mode becomes inactive and the session is saved with its end
  time and its one action, but it is not retained in the state; through
  \<open>toggleRecording\<close> it is saved and retained.
\<close>

theorem stopSession_drops_session:
  "outcome clicked = Some (MANUAL_SELECTION, True, False, ''session_1000_abc'', [], [])
   \<and> outcome (Option.bind clicked (stopSession env1))
       = Some (INACTIVE, False, False, ''null'', [], [''sessionStopped''])
   \<and> savedSession (Option.bind clicked (stopSession env1)) ''enscriber_session_session_1000_abc''
       = Some (Some 2000, [''click''])
   \<and> outcome (Option.bind clicked (toggleRecording env1))
       = Some (INACTIVE, False, False, ''session_1000_abc'', [], [])
   \<and> savedSession (Option.bind clicked (toggleRecording env1)) ''enscriber_session_session_1000_abc''
       = Some (Some 2000, [''click''])"
  by code_simp

text \<open>
  C7, as the code has it. \<open>resumeSession\<close> is rejected when the flag \<open>isPaused\<close> is
  not set, \<open>pauseSession\<close> when the flag \<open>isRecording\<close> is not set, and \<open>stopSession\<close>
  when there is no current session: the call returns, a warning is written to the console,
  no event is emitted and the state is unchanged. The guards read these flags, not the
  mode, and \<open>startSession\<close> has no guard.
\<close>

theorem guarded_calls_rejected:
  "(\<not> isPaused (st sys) \<longrightarrow>
      resumeSession env sys
        = Some (sys\<lparr>console := console sys
                         @ [(WARN, ''Enscriber: No paused session to resume'')]\<rparr>))
   \<and> (\<not> isRecording (st sys) \<longrightarrow>
      pauseSession env sys
        = Some (sys\<lparr>console := console sys
                         @ [(WARN, ''Enscriber: No active session to pause'')]\<rparr>))
   \<and> (currentSession (st sys) = None \<longrightarrow>
      stopSession env sys
        = Some (sys\<lparr>console := console sys
                         @ [(WARN, ''Enscriber: No active session to stop'')]\<rparr>))"
  by (simp add: resumeSession_def pauseSession_def stopSession_def getState_def)

theorem guarded_calls_rejected_witness:
  "outcome (resumeSession env0 initialSystem)
     = Some (INACTIVE, False, False, ''null'',
             [(WARN, ''Enscriber: No paused session to resume'')], [])
   \<and> outcome (pauseSession env0 initialSystem)
     = Some (INACTIVE, False, False, ''null'',
             [(WARN, ''Enscriber: No active session to pause'')], [])
   \<and> outcome (stopSession env0 initialSystem)
     = Some (INACTIVE, False, False, ''null'',
             [(WARN, ''Enscriber: No active session to stop'')], [])"
proof -
  have h: "\<not> isPaused (st initialSystem)" "\<not> isRecording (st initialSystem)"
    "currentSession (st initialSystem) = None"
    by (simp_all add: initialSystem_def initialState_def)
  note r1 = guarded_calls_rejected[of initialSystem env0, THEN conjunct1, THEN mp, OF h(1)]
  note r2 = guarded_calls_rejected[of initialSystem env0, THEN conjunct2, THEN conjunct1,
      THEN mp, OF h(2)]
  note r3 = guarded_calls_rejected[of initialSystem env0, THEN conjunct2, THEN conjunct2,
      THEN mp, OF h(3)]
  show ?thesis unfolding r1 r2 r3
    by (simp add: outcome_def sessionIdOf_def initialSystem_def initialState_def)
qed

text \<open>
  C7 as stated fails: calls that the transition table does not allow in the current state
  are accepted, without a warning. A second \<open>start\<close> while a recording runs replaces the
  session; a second \<open>pause\<close> while paused emits \<open>sessionPaused\<close> again; and after
  start, pause and stop the mode is inactive and there is no session, but \<open>isPaused\<close> is
  still set, so that a \<open>resume\<close> is accepted and starts a recording.
\<close>

theorem illegal_calls_accepted:
  "outcome started
     = Some (MANUAL_SELECTION, True, False, ''session_1000_abc'', [], [''sessionStarted''])
   \<and> outcome (Option.bind started startAgain)
     = Some (AUTO_RECORDING, True, False, ''session_2000_def'', [],
             [''sessionStarted'', ''sessionStarted''])
   \<and> outcome paused
     = Some (PAUSED, True, True, ''session_1000_abc'', [], [''sessionStarted'', ''sessionPaused''])
   \<and> outcome (Option.bind paused (pauseSession env1))
     = Some (PAUSED, True, True, ''session_1000_abc'', [],
             [''sessionStarted'', ''sessionPaused'', ''sessionPaused''])
   \<and> outcome stoppedWhilePaused
     = Some (INACTIVE, False, True, ''null'', [],
             [''sessionStarted'', ''sessionPaused'', ''sessionStopped''])
   \<and> outcome (Option.bind stoppedWhilePaused (resumeSession env1))
     = Some (MANUAL_SELECTION, False, False, ''session_2000_def'', [],
             [''sessionStarted'', ''sessionPaused'', ''sessionStopped'', ''sessionResumed''])"
  by code_simp

section \<open>The frame of setState\<close>

lemma mergeState_fields:
  "mode (mergeState s u) = (case u_mode u of None \<Rightarrow> mode s | Some v \<Rightarrow> v)"
  "isRecording (mergeState s u) = (case u_isRecording u of None \<Rightarrow> isRecording s | Some v \<Rightarrow> v)"
  "isPaused (mergeState s u) = (case u_isPaused u of None \<Rightarrow> isPaused s | Some v \<Rightarrow> v)"
  "currentSession (mergeState s u)
     = (case u_currentSession u of None \<Rightarrow> currentSession s | Some v \<Rightarrow> v)"
  "ui (mergeState s u) = (case u_ui u of None \<Rightarrow> ui s | Some v \<Rightarrow> v)"
  "settings (mergeState s u) = (case u_settings u of None \<Rightarrow> settings s | Some v \<Rightarrow> v)"
  "selectedElement (mergeState s u)
     = (case u_selectedElement u of None \<Rightarrow> selectedElement s | Some v \<Rightarrow> v)"
  "networkRequests (mergeState s u)
     = (case u_networkRequests u of None \<Rightarrow> networkRequests s | Some v \<Rightarrow> Some v)"
  by (simp_all add: mergeState_def)

text \<open>
  C10 as stated fails: the update \<open>{ mode: 'manual_selection' }\<close> has no key
  \<open>currentSession\<close>, there is no session before the call, and there is one after it,
  made by the recording listener that \<open>setState\<close> notifies.
\<close>

theorem setState_mode_change_sets_session:
  "u_currentSession (noUpdates\<lparr>u_mode := Some MANUAL_SELECTION\<rparr>) = None
   \<and> currentSession (st initialSystem) = None
   \<and> map_option (currentSession \<circ> st)
        (setState env0 initialSystem (noUpdates\<lparr>u_mode := Some MANUAL_SELECTION\<rparr>))
      = Some (Some sessionA)"
  by code_simp

text \<open>
  C10, as the code has it. Every call of \<open>setState\<close> returns, and afterwards every field
  other than \<open>currentSession\<close> whose key is absent from the update is unchanged; so is
  \<open>currentSession\<close> when the call does not change the mode. The merge itself keeps
  every absent field, \<open>currentSession\<close> included. On the level of objects, \<open>setState\<close>
  stores the merged object, and \<open>getState\<close> returns a new object equal to the stored one,
  so that writing top-level properties of it leaves the stored state as it was.
\<close>

theorem setState_frame:
  assumes "stateRef m < length (objects m)"
  shows "(\<exists>s'. setState env sys u = Some s'
            \<and> (u_isRecording u = None \<longrightarrow> isRecording (st s') = isRecording (st sys))
            \<and> (u_isPaused u = None \<longrightarrow> isPaused (st s') = isPaused (st sys))
            \<and> (u_ui u = None \<longrightarrow> ui (st s') = ui (st sys))
            \<and> (u_settings u = None \<longrightarrow> settings (st s') = settings (st sys))
            \<and> (u_selectedElement u = None \<longrightarrow> selectedElement (st s') = selectedElement (st sys))
            \<and> (u_networkRequests u = None \<longrightarrow> networkRequests (st s') = networkRequests (st sys))
            \<and> (u_mode u = None \<longrightarrow> mode (st s') = mode (st sys))
            \<and> (mode (mergeState (st sys) u) = mode (st sys) \<and> u_currentSession u = None
                 \<longrightarrow> currentSession (st s') = currentSession (st sys)))
       \<and> (u_currentSession u = None
            \<longrightarrow> currentSession (mergeState (st sys) u) = currentSession (st sys))
       \<and> storedState (setStateObject m u) = mergeState (storedState m) u
       \<and> fst (getStateObject m) \<noteq> stateRef (snd (getStateObject m))
       \<and> objects (snd (getStateObject m)) ! fst (getStateObject m) = storedState m
       \<and> storedState (assignProperties (snd (getStateObject m)) (fst (getStateObject m)) w)
           = storedState m"
proof -
  obtain s' where s': "setState env sys u = Some s'" using setState_total by blast
  then have f: "frameEq (mergeState (st sys) u) (st s')"
    unfolding setState_def by (rule setStateN_frame)
  have same: "st s' = mergeState (st sys) u" if "mode (mergeState (st sys) u) = mode (st sys)"
    using s' setState_same_mode[OF that, of env] by auto
  have a1: "u_isRecording u = None \<longrightarrow> isRecording (st s') = isRecording (st sys)"
    using f by (auto simp: frameEq_def mergeState_fields)
  have a2: "u_isPaused u = None \<longrightarrow> isPaused (st s') = isPaused (st sys)"
    using f by (auto simp: frameEq_def mergeState_fields)
  have a3: "u_ui u = None \<longrightarrow> ui (st s') = ui (st sys)"
    using f by (auto simp: frameEq_def mergeState_fields)
  have a4: "u_settings u = None \<longrightarrow> settings (st s') = settings (st sys)"
    using f by (auto simp: frameEq_def mergeState_fields)
  have a5: "u_selectedElement u = None \<longrightarrow> selectedElement (st s') = selectedElement (st sys)"
    using f by (auto simp: frameEq_def mergeState_fields)
  have a6: "u_networkRequests u = None \<longrightarrow> networkRequests (st s') = networkRequests (st sys)"
    using f by (auto simp: frameEq_def mergeState_fields)
  have a7: "u_mode u = None \<longrightarrow> mode (st s') = mode (st sys)"
  proof
    assume n: "u_mode u = None"
    then have "mode (mergeState (st sys) u) = mode (st sys)" by (simp add: mergeState_fields)
    from same[OF this] n show "mode (st s') = mode (st sys)" by (simp add: mergeState_fields)
  qed
  have a8: "mode (mergeState (st sys) u) = mode (st sys) \<and> u_currentSession u = None
                 \<longrightarrow> currentSession (st s') = currentSession (st sys)"
  proof
    assume n: "mode (mergeState (st sys) u) = mode (st sys) \<and> u_currentSession u = None"
    then have "st s' = mergeState (st sys) u" using same by simp
    with n show "currentSession (st s') = currentSession (st sys)"
      by (simp add: mergeState_fields)
  qed
  note all = conjI[OF s' conjI[OF a1 conjI[OF a2 conjI[OF a3 conjI[OF a4 conjI[OF a5
               conjI[OF a6 conjI[OF a7 a8]]]]]]]]
  have 1: "\<exists>s'. setState env sys u = Some s'
            \<and> (u_isRecording u = None \<longrightarrow> isRecording (st s') = isRecording (st sys))
            \<and> (u_isPaused u = None \<longrightarrow> isPaused (st s') = isPaused (st sys))
            \<and> (u_ui u = None \<longrightarrow> ui (st s') = ui (st sys))
            \<and> (u_settings u = None \<longrightarrow> settings (st s') = settings (st sys))
            \<and> (u_selectedElement u = None \<longrightarrow> selectedElement (st s') = selectedElement (st sys))
            \<and> (u_networkRequests u = None \<longrightarrow> networkRequests (st s') = networkRequests (st sys))
            \<and> (u_mode u = None \<longrightarrow> mode (st s') = mode (st sys))
            \<and> (mode (mergeState (st sys) u) = mode (st sys) \<and> u_currentSession u = None
                 \<longrightarrow> currentSession (st s') = currentSession (st sys))"
    by (rule exI[of _ s']) (rule all)
  have 2: "u_currentSession u = None
            \<longrightarrow> currentSession (mergeState (st sys) u) = currentSession (st sys)"
    by (simp add: mergeState_fields)
  have 3: "storedState (setStateObject m u) = mergeState (storedState m) u"
    using assms by (simp add: setStateObject_def storedState_def Let_def nth_append)
  have 4: "fst (getStateObject m) \<noteq> stateRef (snd (getStateObject m))"
    using assms by (simp add: getStateObject_def)
  have 5: "objects (snd (getStateObject m)) ! fst (getStateObject m) = storedState m"
    by (simp add: getStateObject_def)
  have 6: "storedState (assignProperties (snd (getStateObject m)) (fst (getStateObject m)) w)
           = storedState m"
    using assms by (simp add: getStateObject_def assignProperties_def storedState_def nth_append)
  from 1 2 3 4 5 6 show ?thesis by (intro conjI)
qed

theorem setState_frame_witness:
  "(\<exists>s'. setState env0 initialSystem (noUpdates\<lparr>u_mode := Some MANUAL_SELECTION\<rparr>) = Some s'
        \<and> ui (st s') = ui initialState \<and> settings (st s') = settings initialState
        \<and> isPaused (st s') = False)
   \<and> fst (getStateObject manager0) \<noteq> stateRef (snd (getStateObject manager0))
   \<and> storedState (assignProperties (snd (getStateObject manager0)) (fst (getStateObject manager0))
        (noUpdates\<lparr>u_mode := Some PAUSED\<rparr>)) = initialState"
proof -
  have h: "stateRef manager0 < length (objects manager0)" by (simp add: manager0_def)
  have u: "u_ui (noUpdates\<lparr>u_mode := Some MANUAL_SELECTION\<rparr>) = None"
    "u_settings (noUpdates\<lparr>u_mode := Some MANUAL_SELECTION\<rparr>) = None"
    "u_isPaused (noUpdates\<lparr>u_mode := Some MANUAL_SELECTION\<rparr>) = None"
    by (simp_all add: noUpdates_def)
  have i: "st initialSystem = initialState" "isPaused initialState = False"
    "storedState manager0 = initialState"
    by (simp_all add: initialSystem_def initialState_def manager0_def storedState_def)
  from setState_frame[OF h, of env0 initialSystem "noUpdates\<lparr>u_mode := Some MANUAL_SELECTION\<rparr>"
      "noUpdates\<lparr>u_mode := Some PAUSED\<rparr>"] u i
  show ?thesis by auto
qed

end
